theory Spec2Isabelle
  imports Complex_Main "HOL-Library.List_Lexorder" "HOL-Library.Char_ord"
begin

section \<open>Python strings\<close>

text \<open>
  Strings are byte strings (\<open>char list\<close>). Non-ASCII text such as the rupee sign is its
  UTF-8 encoding. \<open>lower\<close> maps the ASCII capitals only; every vocabulary of the
  service is ASCII.
\<close>

abbreviation SQ :: string where "SQ \<equiv> [CHR 0x27]"
abbreviation NL :: string where "NL \<equiv> [CHR 0x0A]"

definition lower_char :: "char \<Rightarrow> char" where
  "lower_char c =
     (case map_of (zip ''ABCDEFGHIJKLMNOPQRSTUVWXYZ'' ''abcdefghijklmnopqrstuvwxyz'') c of
        None \<Rightarrow> c
      | Some d \<Rightarrow> d)"

definition lower :: "string \<Rightarrow> string" where
  "lower s = map lower_char s"

text \<open>\<open>sep.join(xs)\<close>\<close>

fun join :: "string \<Rightarrow> string list \<Rightarrow> string" where
  "join sep [] = []"
| "join sep [x] = x"
| "join sep (x # y # ys) = x @ sep @ join sep (y # ys)"

text \<open>\<open>sub in s\<close>\<close>

fun contains :: "string \<Rightarrow> string \<Rightarrow> bool" where
  "contains sub [] = (sub = [])"
| "contains sub (c # cs) = (take (length sub) (c # cs) = sub \<or> contains sub cs)"

text \<open>\<open>s.strip()\<close>: the ASCII white space of Python's \<open>str.isspace\<close>.\<close>

definition is_space :: "char \<Rightarrow> bool" where
  "is_space c \<longleftrightarrow>
     c \<in> set [CHR '' '', CHR 0x09, CHR 0x0A, CHR 0x0B, CHR 0x0C, CHR 0x0D,
                CHR 0x1C, CHR 0x1D, CHR 0x1E, CHR 0x1F]"

definition strip :: "string \<Rightarrow> string" where
  "strip s = rev (dropWhile is_space (rev (dropWhile is_space s)))"

text \<open>Truthiness of an \<open>Optional[str]\<close>: neither \<open>None\<close> nor empty.\<close>

fun truthy :: "string option \<Rightarrow> bool" where
  "truthy None = False"
| "truthy (Some s) = (s \<noteq> [])"

text \<open>\<open>a or b\<close> on optional strings.\<close>

definition py_or :: "string option \<Rightarrow> string option \<Rightarrow> string option" where
  "py_or a b = (if truthy a then a else b)"

section \<open>Schemas (app/models/schemas.py)\<close>

record PrimaryFilters =
  device :: "string option"
  state :: "string option"
  age_group :: "string option"
  network :: "string option"
  category :: "string option"
  payment_method :: "string option"
  status :: "string option"

text \<open>\<open>PrimaryFilters()\<close>: every field defaults to \<open>None\<close>.\<close>

definition PrimaryFilters_default :: PrimaryFilters where
  "PrimaryFilters_default =
     \<lparr>device = None, state = None, age_group = None, network = None,
      category = None, payment_method = None, status = None\<rparr>"

datatype IntentType =
  METRIC_QUERY | COMPARISON | TIME_SERIES | SEGMENTATION | CLARIFICATION | UNKNOWN

record IntentSchema =
  intent_type :: IntentType
  metric :: "string option"
  primary_filters :: PrimaryFilters

text \<open>
  A time window is the dictionary the callers pass: keys to optional strings, at most
  one entry per key. \<open>d.get(k)\<close> is \<open>None\<close> for an absent key and for a key bound to
  \<open>None\<close>.
\<close>

type_synonym time_window = "(string \<times> string option) list"

definition dict_get :: "time_window \<Rightarrow> string \<Rightarrow> string option" where
  "dict_get d k = (case map_of d k of None \<Rightarrow> None | Some v \<Rightarrow> v)"

section \<open>Predicate builder (\<open>_build_where_clause\<close>)\<close>

definition filter_map :: "PrimaryFilters \<Rightarrow> (string \<times> string option) list" where
  "filter_map filters =
     [(''device'', device filters),
      (''state'', state filters),
      (''age_group'', age_group filters),
      (''network'', network filters),
      (''category'', category filters),
      (''payment_method'', payment_method filters),
      (''status'', status filters)]"

text \<open>The loop over \<open>filter_map.items()\<close>: the pair (conditions, params).\<close>

fun collect_conditions :: "(string \<times> string option) list \<Rightarrow> string list \<times> string list" where
  "collect_conditions [] = ([], [])"
| "collect_conditions ((col, None) # rest) = collect_conditions rest"
| "collect_conditions ((col, Some val) # rest) =
     (case collect_conditions rest of
        (conditions, params) \<Rightarrow> ((col @ '' = ?'') # conditions, val # params))"

definition build_where_clause :: "PrimaryFilters \<Rightarrow> string \<times> string list" where
  "build_where_clause filters =
     (case collect_conditions (filter_map filters) of
        (conditions, params) \<Rightarrow>
          ((if conditions \<noteq> [] then join '' AND '' conditions else ''1=1''), params))"

section \<open>Time window resolver (\<open>_apply_time_window\<close>)\<close>

text \<open>
  \<open>ymd_days_ago n\<close> stands for
  \<open>(datetime.now() - timedelta(days=n)).strftime('%Y-%m-%d')\<close>: the clock and the
  calendar are the library's, and a parameter here.
\<close>

definition period_days :: "string \<Rightarrow> nat" where
  "period_days period =
     (if period = ''last_7_days'' then 7
      else if period = ''last_30_days'' then 30
      else if period = ''last_90_days'' then 90
      else 30)"

definition apply_time_window ::
  "(nat \<Rightarrow> string) \<Rightarrow> string \<Rightarrow> time_window option \<Rightarrow> string \<times> string list" where
  "apply_time_window ymd_days_ago base_where time_window =
     (case time_window of
        None \<Rightarrow> (base_where, [])
      | Some tw \<Rightarrow>
          if tw = [] then (base_where, [])
          else
            let w1 = (case dict_get tw ''period'' of
                        None \<Rightarrow> base_where
                      | Some period \<Rightarrow>
                          if period \<noteq> []
                          then base_where @ '' AND timestamp >= '' @ SQ
                                 @ ymd_days_ago (period_days period) @ SQ
                          else base_where);
                from_date = py_or (dict_get tw ''from_date'') (dict_get tw ''from'');
                to_date = py_or (dict_get tw ''to_date'') (dict_get tw ''to'');
                w2 = (case from_date of
                        None \<Rightarrow> w1
                      | Some d \<Rightarrow>
                          if d \<noteq> [] then w1 @ '' AND timestamp >= '' @ SQ @ d @ SQ else w1);
                w3 = (case to_date of
                        None \<Rightarrow> w2
                      | Some d \<Rightarrow>
                          if d \<noteq> [] then w2 @ '' AND timestamp <= '' @ SQ @ d @ SQ else w2)
            in (w3, []))"

section \<open>Computability guard (\<open>is_metric_computable\<close>)\<close>

text \<open>
  The vocabularies are Python sets; the lists below are in the order of the source
  text. Only membership is observable, except in the order in which a rejection
  message enumerates the names, which Python leaves open.
\<close>

definition supported_metrics :: "string list" where
  "supported_metrics =
     [''failure_rate'', ''volume'', ''count'', ''avg_amount'',
      ''avg_transaction_amount'', ''total_amount'', ''failure_codes'',
      ''fraud_rate'', ''review_rate'', ''executive_summary'']"

definition valid_devices :: "string list" where
  "valid_devices = [''android'', ''ios'', ''web'']"

definition valid_networks :: "string list" where
  "valid_networks = [''4g'', ''5g'', ''wifi'', ''3g'']"

text \<open>\<open>v and v.lower() not in vocabulary\<close>: the offending value, if there is one.\<close>

definition not_in_vocabulary :: "string option \<Rightarrow> string list \<Rightarrow> string option" where
  "not_in_vocabulary v vocabulary =
     (case v of
        None \<Rightarrow> None
      | Some s \<Rightarrow> if s \<noteq> [] \<and> lower s \<notin> set vocabulary then Some s else None)"

definition is_metric_computable :: "IntentSchema \<Rightarrow> bool \<times> string" where
  "is_metric_computable intent =
     (let filters = primary_filters intent in
      case not_in_vocabulary (metric intent) supported_metrics of
        Some m \<Rightarrow>
          (False, ''Metric '' @ SQ @ m @ SQ @ '' is not supported. Available metrics: ''
                    @ join '', '' supported_metrics)
      | None \<Rightarrow>
          (case not_in_vocabulary (device filters) valid_devices of
             Some d \<Rightarrow>
               (False, ''Unknown device type: '' @ d @ ''. Valid options: ''
                         @ join '', '' valid_devices)
           | None \<Rightarrow>
               (case not_in_vocabulary (network filters) valid_networks of
                  Some n \<Rightarrow>
                    (False, ''Unknown network type: '' @ n @ ''. Valid options: ''
                              @ join '', '' valid_networks)
                | None \<Rightarrow> (True, ''''))))"

section \<open>Python numbers and formatted text\<close>

text \<open>
  A Python number is an \<open>int\<close> or a \<open>float\<close>. Floats are modelled by exact rationals
  plus the not-a-number value that pandas uses for SQL \<open>NULL\<close>; binary rounding is
  outside the model.
\<close>

datatype pyval = IntV int | FloatV rat | NaN

fun num :: "pyval \<Rightarrow> rat" where
  "num (IntV i) = of_int i"
| "num (FloatV q) = q"
| "num NaN = 0"

text \<open>\<open>float(v)\<close>, \<open>pd.notna(v)\<close>, \<open>isinstance(v, float)\<close>, \<open>v != 0\<close>.\<close>

fun py_float :: "pyval \<Rightarrow> pyval" where
  "py_float (IntV i) = FloatV (of_int i)"
| "py_float v = v"

fun notna :: "pyval \<Rightarrow> bool" where
  "notna NaN = False"
| "notna v = True"

fun is_float :: "pyval \<Rightarrow> bool" where
  "is_float (IntV i) = False"
| "is_float v = True"

fun nonzero :: "pyval \<Rightarrow> bool" where
  "nonzero (IntV i) = (i \<noteq> 0)"
| "nonzero (FloatV q) = (q \<noteq> 0)"
| "nonzero NaN = True"

text \<open>\<open>a - b\<close>, \<open>a / b\<close> (callers exclude a zero divisor), \<open>a * b\<close>, \<open>int(v)\<close>.\<close>

fun py_sub :: "pyval \<Rightarrow> pyval \<Rightarrow> pyval" where
  "py_sub (IntV a) (IntV b) = IntV (a - b)"
| "py_sub NaN b = NaN"
| "py_sub a NaN = NaN"
| "py_sub a b = FloatV (num a - num b)"

fun py_div :: "pyval \<Rightarrow> pyval \<Rightarrow> pyval" where
  "py_div NaN b = NaN"
| "py_div a NaN = NaN"
| "py_div a b = FloatV (num a / num b)"

fun py_mul :: "pyval \<Rightarrow> pyval \<Rightarrow> pyval" where
  "py_mul (IntV a) (IntV b) = IntV (a * b)"
| "py_mul NaN b = NaN"
| "py_mul a NaN = NaN"
| "py_mul a b = FloatV (num a * num b)"

text \<open>
  An f-string is kept as its parts: literal text, or a value with its format
  specification (\<open>f"{v:,.2f}"\<close> is \<open>[Fmt '',.2f'' v]\<close>). Rendering digits is Python's.
\<close>

datatype part = Lit string | Fmt string "pyval option"

type_synonym fstring = "part list"

text \<open>\<open>s.replace("_", " ")\<close> and \<open>s.title()\<close> on ASCII.\<close>

definition replace_underscore :: "string \<Rightarrow> string" where
  "replace_underscore s = map (\<lambda>c. if c = CHR ''_'' then CHR '' '' else c) s"

definition upper_char :: "char \<Rightarrow> char" where
  "upper_char c =
     (case map_of (zip ''abcdefghijklmnopqrstuvwxyz'' ''ABCDEFGHIJKLMNOPQRSTUVWXYZ'') c of
        None \<Rightarrow> c
      | Some d \<Rightarrow> d)"

definition is_cased :: "char \<Rightarrow> bool" where
  "is_cased c \<longleftrightarrow> upper_char c \<noteq> c \<or> lower_char c \<noteq> c"

fun title_from :: "bool \<Rightarrow> string \<Rightarrow> string" where
  "title_from prev [] = []"
| "title_from prev (c # cs) =
     (if is_cased c then (if prev then lower_char c else upper_char c) # title_from True cs
      else c # title_from False cs)"

definition title :: "string \<Rightarrow> string" where
  "title s = title_from False s"

section \<open>Result schemas\<close>

record CalculationDetail =
  numerator :: "pyval option"
  denominator :: "pyval option"
  formula :: "string option"
  sample_size :: "int option"

definition CalculationDetail_default :: CalculationDetail where
  "CalculationDetail_default =
     \<lparr>numerator = None, denominator = None, formula = None, sample_size = None\<rparr>"

text \<open>Field \<open>value\<close> of the source is \<open>value_text\<close> here.\<close>

record NumberDetail =
  label :: string
  value_text :: fstring
  raw_value :: "pyval option"
  calculation :: "CalculationDetail option"

text \<open>Fields \<open>x\<close>, \<open>y\<close>, \<open>label\<close> of the source.\<close>

record ChartDataPoint =
  point_x :: string
  point_y :: pyval
  point_label :: "string option"

datatype ChartType = LINE | BAR | PIE | SPARKLINE

text \<open>Field \<open>type\<close> of the source is \<open>chart_type\<close> here.\<close>

record ChartData =
  chart_type :: ChartType
  title_text :: "string option"
  x_label :: "string option"
  y_label :: "string option"
  points :: "ChartDataPoint list"
  series_name :: "string option"

text \<open>
  The rows of the table, with the thirteen required columns and the derived
  \<open>date_only\<close>. Only \<open>failure_code\<close> is nullable here.
\<close>

record row =
  transaction_id :: string
  timestamp :: string
  amount :: rat
  row_payment_method :: string
  row_device :: string
  row_state :: string
  row_age_group :: string
  row_network :: string
  row_category :: string
  row_status :: string
  failure_code :: "string option"
  fraud_flag :: int
  review_flag :: int
  date_only :: string

text \<open>A sample row: the seven columns the sample query selects.\<close>

type_synonym sample_row =
  "string \<times> string \<times> rat \<times> string \<times> string \<times> string \<times> string option"

text \<open>
  Field \<open>metric\<close> of the source is \<open>result_metric\<close> here; \<open>execution_time_ms\<close> is wall-clock
  time and is left out.
\<close>

record AnalysisResult =
  success :: bool
  result_metric :: string
  numbers :: "NumberDetail list"
  query_executed :: string
  sample_rows :: "sample_row list option"
  chart_data :: "ChartData option"
  error :: "string option"

text \<open>\<open>AnalysisResult(success=False, metric=m, query_executed=q, error=e)\<close>\<close>

definition failed_result :: "string \<Rightarrow> string \<Rightarrow> string \<Rightarrow> AnalysisResult" where
  "failed_result m q e =
     \<lparr>success = False, result_metric = m, numbers = [], query_executed = q,
      sample_rows = None, chart_data = None, error = Some e\<rparr>"

section \<open>The query engine\<close>

text \<open>
  The service hands DuckDB a query text and nothing else: every call is
  \<open>self.conn.execute(query)\<close>, with no parameter list. The engine is a parameter of
  the model:
  \<^item> \<open>tbl\<close>: the rows of table \<open>transactions\<close>;
  \<open>raises\<close>: the message of the exception that \<open>execute\<close> raises on a query text, if
  it raises;
  \<^item> \<open>where_sem\<close>: which rows a predicate text selects;
  \<^item> \<open>expr_sem\<close>: the value of a grouping expression text on a row, as \<open>str\<close>
  renders it.
  The select lists, \<open>GROUP BY\<close>, \<open>ORDER BY\<close> and \<open>LIMIT\<close> of the query templates are given
  their SQL meaning below. Each interpolated fragment is read as the one operand the
  template makes of it.
\<close>

record duckdb =
  tbl :: "row list"
  raises :: "string \<Rightarrow> string option"
  where_sem :: "string \<Rightarrow> row \<Rightarrow> bool"
  expr_sem :: "string \<Rightarrow> row \<Rightarrow> string"

definition execute :: "duckdb \<Rightarrow> string \<Rightarrow> 'a \<Rightarrow> string + 'a" where
  "execute conn query answer =
     (case raises conn query of Some msg \<Rightarrow> Inl msg | None \<Rightarrow> Inr answer)"

definition rows_where :: "duckdb \<Rightarrow> string \<Rightarrow> row list" where
  "rows_where conn w = filter (where_sem conn w) (tbl conn)"

text \<open>\<open>ROUND(x, d)\<close>: to \<open>d\<close> decimals, halves away from zero.\<close>

definition sql_round :: "rat \<Rightarrow> nat \<Rightarrow> rat" where
  "sql_round x d =
     (if 0 \<le> x then of_int \<lfloor>x * 10 ^ d + 1 / 2\<rfloor> / 10 ^ d
      else - (of_int \<lfloor>- x * 10 ^ d + 1 / 2\<rfloor> / 10 ^ d))"

text \<open>
  \<open>ROUND(100.0 * SUM(CASE WHEN c THEN 1 ELSE 0 END) / NULLIF(COUNT(*), 0), d)\<close>
  over the rows \<open>rs\<close>: \<open>NULL\<close> (\<open>None\<close>) when there is no row.
\<close>

definition rate_pct :: "(row \<Rightarrow> bool) \<Rightarrow> nat \<Rightarrow> row list \<Rightarrow> rat option" where
  "rate_pct c d rs =
     (if rs = [] then None
      else Some (sql_round (100 * of_nat (length (filter c rs)) / of_nat (length rs)) d))"

definition is_failed :: "row \<Rightarrow> bool" where
  "is_failed r \<longleftrightarrow> row_status r = ''Failed''"

text \<open>\<open>SUM(CASE WHEN status = 'Failed' THEN 1 ELSE 0 END)\<close>\<close>

definition sum_failed :: "row list \<Rightarrow> int option" where
  "sum_failed rs = (if rs = [] then None else Some (int (length (filter is_failed rs))))"

definition sum_amount :: "row list \<Rightarrow> rat" where
  "sum_amount rs = sum_list (map amount rs)"

text \<open>\<open>ROUND(SUM(amount), 2)\<close> and \<open>ROUND(AVG(amount), 2)\<close>\<close>

definition round_sum_amount :: "row list \<Rightarrow> rat option" where
  "round_sum_amount rs = (if rs = [] then None else Some (sql_round (sum_amount rs) 2))"

definition round_avg_amount :: "row list \<Rightarrow> rat option" where
  "round_avg_amount rs =
     (if rs = [] then None else Some (sql_round (sum_amount rs / of_nat (length rs)) 2))"

section \<open>Analysis operations (class \<open>AnalysisService\<close>)\<close>

text \<open>
  \<open>self.conn\<close> is \<open>None\<close> until the dataset is loaded: the operations take a
  \<open>duckdb option\<close>. Every \<open>raise\<close> inside a \<open>try\<close> block is a branch that returns the
  \<open>except\<close> clause's result.
\<close>

definition table_name :: string where
  "table_name = ''transactions''"

definition rupee :: string where
  "rupee = [CHR 0xE2, CHR 0x82, CHR 0xB9]"

definition or_default_filters :: "PrimaryFilters option \<Rightarrow> PrimaryFilters" where
  "or_default_filters filters =
     (case filters of None \<Rightarrow> PrimaryFilters_default | Some f \<Rightarrow> f)"

subsection \<open>\<open>compute_failure_rate\<close>\<close>

definition failure_rate_query :: "string \<Rightarrow> string" where
  "failure_rate_query w = join NL
     ['''',
      ''            SELECT '',
      ''                COUNT(*) as total_transactions,'',
      ''                SUM(CASE WHEN status = 'Failed' THEN 1 ELSE 0 END) as failed_transactions,'',
      ''                ROUND('',
      ''                    100.0 * SUM(CASE WHEN status = 'Failed' THEN 1 ELSE 0 END) / '',
      ''                    NULLIF(COUNT(*), 0), 2'',
      ''                ) as failure_rate_pct'',
      ''            FROM '' @ table_name,
      ''            WHERE '' @ w,
      ''        '']"

definition sample_query :: "string \<Rightarrow> string" where
  "sample_query w = join NL
     ['''',
      ''                SELECT transaction_id, timestamp, amount, device, state, '',
      ''                       category, failure_code'',
      ''                FROM '' @ table_name,
      ''                WHERE '' @ w @ '' AND status = '' @ SQ @ ''Failed'' @ SQ,
      ''                LIMIT 5'',
      ''            '']"

definition sample_of :: "row \<Rightarrow> sample_row" where
  "sample_of r =
     (transaction_id r, timestamp r, amount r, row_device r, row_state r, row_category r,
      failure_code r)"

definition compute_failure_rate ::
  "(nat \<Rightarrow> string) \<Rightarrow> duckdb option \<Rightarrow> PrimaryFilters option \<Rightarrow> time_window option
     \<Rightarrow> AnalysisResult" where
  "compute_failure_rate ymd_days_ago conn filters time_window =
     (case conn of
        None \<Rightarrow> failed_result ''failure_rate'' ''N/A'' ''Dataset not loaded''
      | Some db \<Rightarrow>
          (case build_where_clause (or_default_filters filters) of
             (w0, params) \<Rightarrow>
          (case apply_time_window ymd_days_ago w0 time_window of
             (w, time_params) \<Rightarrow>
          let query = failure_rate_query w;
              rs = rows_where db w
          in
          (case execute db query (int (length rs), sum_failed rs, rate_pct is_failed 2 rs) of
             Inl e \<Rightarrow> failed_result ''failure_rate'' (strip query) e
           | Inr (r0, r1, r2) \<Rightarrow>
               let total = r0;
                   failed = (case r1 of None \<Rightarrow> 0 | Some n \<Rightarrow> n);
                   rate = (case r2 of None \<Rightarrow> 0 | Some q \<Rightarrow> q)
               in
               (case execute db (sample_query w) (map sample_of (take 5 (filter is_failed rs))) of
                  Inl e \<Rightarrow> failed_result ''failure_rate'' (strip query) e
                | Inr sample \<Rightarrow>
                    \<lparr>success = True,
                     result_metric = ''failure_rate'',
                     numbers =
                       [\<lparr>label = ''Failure Rate'',
                         value_text = [Fmt '''' (Some (FloatV rate)), Lit ''%''],
                         raw_value = Some (FloatV rate),
                         calculation = Some
                           \<lparr>numerator = Some (IntV failed),
                            denominator = Some (IntV total),
                            formula = Some ''(failed_transactions / total_transactions) * 100'',
                            sample_size = None\<rparr>\<rparr>,
                        \<lparr>label = ''Total Transactions'',
                         value_text = [Fmt '','' (Some (IntV total))],
                         raw_value = Some (IntV total),
                         calculation = None\<rparr>,
                        \<lparr>label = ''Failed Transactions'',
                         value_text = [Fmt '','' (Some (IntV failed))],
                         raw_value = Some (IntV failed),
                         calculation = None\<rparr>],
                     query_executed = strip query,
                     sample_rows = Some sample,
                     chart_data = None,
                     error = None\<rparr>)))))"

subsection \<open>\<open>get_executive_summary\<close>\<close>

definition executive_summary_query :: "string \<Rightarrow> string" where
  "executive_summary_query w = join NL
     ['''',
      ''            SELECT '',
      ''                COUNT(*) as total_transactions,'',
      ''                ROUND(SUM(amount), 2) as total_volume,'',
      ''                ROUND(AVG(amount), 2) as avg_transaction_amount,'',
      ''                ROUND(100.0 * SUM(CASE WHEN status = 'Failed' THEN 1 ELSE 0 END) / NULLIF(COUNT(*), 0), 2) as failure_rate,'',
      ''                ROUND(100.0 * SUM(CASE WHEN fraud_flag = 1 THEN 1 ELSE 0 END) / NULLIF(COUNT(*), 0), 4) as fraud_rate,'',
      ''                ROUND(100.0 * SUM(CASE WHEN review_flag = 1 THEN 1 ELSE 0 END) / NULLIF(COUNT(*), 0), 2) as review_rate'',
      ''            FROM '' @ table_name,
      ''            WHERE '' @ w,
      ''        '']"

definition opt_float :: "rat option \<Rightarrow> pyval option" where
  "opt_float q = map_option FloatV q"

text \<open>
  With no row selected the sums are \<open>NULL\<close>, \<open>result[1]\<close> is \<open>None\<close>, and
  \<open>f"{result[1]:,.2f}"\<close> raises \<open>TypeError\<close> inside the \<open>try\<close> block.
\<close>

definition get_executive_summary ::
  "(nat \<Rightarrow> string) \<Rightarrow> duckdb option \<Rightarrow> time_window option \<Rightarrow> AnalysisResult" where
  "get_executive_summary ymd_days_ago conn time_window =
     (case conn of
        None \<Rightarrow> failed_result ''executive_summary'' ''N/A'' ''Dataset not loaded''
      | Some db \<Rightarrow>
          (case apply_time_window ymd_days_ago ''1=1'' time_window of
             (w, time_params) \<Rightarrow>
          let query = executive_summary_query w;
              rs = rows_where db w
          in
          (case execute db query
                  (int (length rs), round_sum_amount rs, round_avg_amount rs,
                   rate_pct is_failed 2 rs, rate_pct (\<lambda>r. fraud_flag r = 1) 4 rs,
                   rate_pct (\<lambda>r. review_flag r = 1) 2 rs) of
             Inl e \<Rightarrow> failed_result ''executive_summary'' (strip query) e
           | Inr (r0, r1, r2, r3, r4, r5) \<Rightarrow>
               (case r1 of
                  None \<Rightarrow>
                    failed_result ''executive_summary'' (strip query)
                      ''unsupported format string passed to NoneType.__format__''
                | Some total_volume \<Rightarrow>
               (case r2 of
                  None \<Rightarrow>
                    failed_result ''executive_summary'' (strip query)
                      ''unsupported format string passed to NoneType.__format__''
                | Some avg_amount \<Rightarrow>
                    \<lparr>success = True,
                     result_metric = ''executive_summary'',
                     numbers =
                       [\<lparr>label = ''Total Transactions'',
                         value_text = [Fmt '','' (Some (IntV r0))],
                         raw_value = Some (IntV r0), calculation = None\<rparr>,
                        \<lparr>label = ''Total Volume'',
                         value_text = [Lit rupee, Fmt '',.2f'' (Some (FloatV total_volume))],
                         raw_value = Some (FloatV total_volume), calculation = None\<rparr>,
                        \<lparr>label = ''Average Transaction'',
                         value_text = [Lit rupee, Fmt '',.2f'' (Some (FloatV avg_amount))],
                         raw_value = Some (FloatV avg_amount), calculation = None\<rparr>,
                        \<lparr>label = ''Failure Rate'',
                         value_text = [Fmt '''' (opt_float r3), Lit ''%''],
                         raw_value = opt_float r3, calculation = None\<rparr>,
                        \<lparr>label = ''Fraud Rate'',
                         value_text = [Fmt '''' (opt_float r4), Lit ''%''],
                         raw_value = opt_float r4, calculation = None\<rparr>,
                        \<lparr>label = ''Review Rate'',
                         value_text = [Fmt '''' (opt_float r5), Lit ''%''],
                         raw_value = opt_float r5, calculation = None\<rparr>],
                     query_executed = strip query,
                     sample_rows = None,
                     chart_data = None,
                     error = None\<rparr>)))))"

subsection \<open>\<open>get_top_failure_codes\<close>\<close>

text \<open>\<open>str(limit)\<close> for \<open>LIMIT {limit}\<close>: decimal digits, with a sign when negative.\<close>

fun digits :: "nat \<Rightarrow> string" where
  "digits n =
     (if n < 10 then [''0123456789'' ! n]
      else digits (n div 10) @ [''0123456789'' ! (n mod 10)])"

declare digits.simps [simp del]

definition str_int :: "int \<Rightarrow> string" where
  "str_int i = (if i < 0 then CHR ''-'' # digits (nat (- i)) else digits (nat i))"

definition top_failure_codes_query :: "string \<Rightarrow> int \<Rightarrow> string" where
  "top_failure_codes_query w limit = join NL
     ['''',
      ''            SELECT '',
      ''                COALESCE(failure_code, 'Unknown') as failure_code,'',
      ''                COUNT(*) as count,'',
      ''                ROUND(100.0 * COUNT(*) / SUM(COUNT(*)) OVER (), 2) as percentage'',
      ''            FROM '' @ table_name,
      ''            WHERE '' @ w @ '' AND status = '' @ SQ @ ''Failed'' @ SQ,
      ''            GROUP BY failure_code'',
      ''            ORDER BY count DESC'',
      ''            LIMIT '' @ str_int limit,
      ''        '']"

text \<open>
  One result row per distinct \<open>failure_code\<close> of the selected rows \<open>rs\<close>: the code with
  \<open>NULL\<close> shown as \<open>Unknown\<close>, its count, and its share of all of \<open>rs\<close> in percent.
\<close>

definition code_count :: "row list \<Rightarrow> string option \<Rightarrow> nat" where
  "code_count rs c = length (filter (\<lambda>r. failure_code r = c) rs)"

definition code_groups :: "row list \<Rightarrow> (string \<times> int \<times> rat) list" where
  "code_groups rs =
     map (\<lambda>c. (case c of None \<Rightarrow> ''Unknown'' | Some s \<Rightarrow> s,
                int (code_count rs c),
                sql_round (100 * of_nat (code_count rs c) / of_nat (length rs)) 2))
       (remdups (map failure_code rs))"

text \<open>\<open>ORDER BY count DESC LIMIT n\<close>; rows of equal count keep their order.\<close>

definition top_codes :: "row list \<Rightarrow> int \<Rightarrow> (string \<times> int \<times> rat) list" where
  "top_codes rs limit =
     take (nat limit) (sort_key (\<lambda>(code, n, pct). - n) (code_groups rs))"

definition code_number :: "string \<times> int \<times> rat \<Rightarrow> NumberDetail" where
  "code_number g =
     (case g of (code, n, pct) \<Rightarrow>
        \<lparr>label = code,
         value_text = [Fmt '','' (Some (IntV n)), Lit '' ('', Fmt '''' (Some (FloatV pct)), Lit ''%)''],
         raw_value = Some (IntV n),
         calculation = None\<rparr>)"

definition code_point :: "string \<times> int \<times> rat \<Rightarrow> ChartDataPoint" where
  "code_point g =
     (case g of (code, n, pct) \<Rightarrow>
        \<lparr>point_x = code, point_y = IntV n, point_label = None\<rparr>)"

definition get_top_failure_codes ::
  "(nat \<Rightarrow> string) \<Rightarrow> duckdb option \<Rightarrow> PrimaryFilters option \<Rightarrow> time_window option \<Rightarrow> int
     \<Rightarrow> AnalysisResult" where
  "get_top_failure_codes ymd_days_ago conn filters time_window limit =
     (case conn of
        None \<Rightarrow> failed_result ''failure_codes'' ''N/A'' ''Dataset not loaded''
      | Some db \<Rightarrow>
          (case build_where_clause (or_default_filters filters) of
             (w0, params) \<Rightarrow>
          (case apply_time_window ymd_days_ago w0 time_window of
             (w, time_params) \<Rightarrow>
          let query = top_failure_codes_query w limit;
              rs = filter is_failed (rows_where db w)
          in
          (case execute db query (top_codes rs limit) of
             Inl e \<Rightarrow> failed_result ''failure_codes'' (strip query) e
           | Inr df \<Rightarrow>
               \<lparr>success = True,
                result_metric = ''failure_codes'',
                numbers = map code_number df,
                query_executed = strip query,
                sample_rows = None,
                chart_data = Some
                  \<lparr>chart_type = BAR, title_text = Some ''Top Failure Codes'',
                   x_label = None, y_label = None, points = map code_point df,
                   series_name = None\<rparr>,
                error = None\<rparr>))))"

subsection \<open>Metric expressions and \<open>_format_metric_value\<close>\<close>

definition count_expr :: string where
  "count_expr = ''COUNT(*)''"

definition avg_amount_expr :: string where
  "avg_amount_expr = ''ROUND(AVG(amount), 2)''"

definition total_amount_expr :: string where
  "total_amount_expr = ''ROUND(SUM(amount), 2)''"

definition failure_rate_expr :: string where
  "failure_rate_expr =
     ''ROUND(100.0 * SUM(CASE WHEN status = 'Failed' THEN 1 ELSE 0 END) / NULLIF(COUNT(*), 0), 2)''"

text \<open>
  The value of a metric expression over the rows \<open>rs\<close>, as it arrives in the
  DataFrame: \<open>NULL\<close> is \<open>NaN\<close> there.
\<close>

definition nan_if_null :: "rat option \<Rightarrow> pyval" where
  "nan_if_null q = (case q of None \<Rightarrow> NaN | Some v \<Rightarrow> FloatV v)"

definition agg_sem :: "string \<Rightarrow> row list \<Rightarrow> pyval" where
  "agg_sem e rs =
     (if e = count_expr then IntV (int (length rs))
      else if e = avg_amount_expr then nan_if_null (round_avg_amount rs)
      else if e = total_amount_expr then nan_if_null (round_sum_amount rs)
      else if e = failure_rate_expr then nan_if_null (rate_pct is_failed 2 rs)
      else NaN)"

text \<open>\<open>int(v)\<close> truncates towards zero; it is not called on \<open>NaN\<close>.\<close>

fun py_int :: "pyval \<Rightarrow> pyval" where
  "py_int (IntV i) = IntV i"
| "py_int (FloatV q) = IntV (if 0 \<le> q then \<lfloor>q\<rfloor> else \<lceil>q\<rceil>)"
| "py_int NaN = NaN"

definition format_metric_value :: "string \<Rightarrow> pyval \<Rightarrow> fstring" where
  "format_metric_value m v =
     (if \<not> notna v then [Lit ''N/A'']
      else
        let metric_lower = lower m in
        if contains ''rate'' metric_lower \<or> contains ''percentage'' metric_lower
        then [Fmt ''.2f'' (Some v), Lit ''%'']
        else if contains ''amount'' metric_lower \<or> contains ''volume'' metric_lower
        then (if is_float v then [Lit rupee, Fmt '',.2f'' (Some v)]
              else [Lit rupee, Fmt '','' (Some v)])
        else if contains ''count'' metric_lower \<or> metric_lower = ''volume''
        then [Fmt '','' (Some (py_int v))]
        else (if is_float v then [Fmt '',.2f'' (Some v)] else [Fmt '','' (Some v)]))"

text \<open>\<open>float(v) if pd.notna(v) else 0\<close>\<close>

definition float_or_zero :: "pyval \<Rightarrow> pyval" where
  "float_or_zero v = (if notna v then py_float v else IntV 0)"

definition metric_title :: "string \<Rightarrow> string" where
  "metric_title m = title (replace_underscore m)"

subsection \<open>\<open>aggregate\<close>\<close>

definition metric_expr_map_aggregate :: "(string \<times> string) list" where
  "metric_expr_map_aggregate =
     [(''volume'', count_expr),
      (''count'', count_expr),
      (''avg_amount'', avg_amount_expr),
      (''total_amount'', total_amount_expr),
      (''avg_transaction_amount'', avg_amount_expr),
      (''failure_rate'', failure_rate_expr)]"

text \<open>\<open>metric_expr_map.get(metric.lower(), "COUNT(*)")\<close>\<close>

definition metric_expr_get :: "(string \<times> string) list \<Rightarrow> string \<Rightarrow> string" where
  "metric_expr_get metric_expr_map m =
     (case map_of metric_expr_map (lower m) of None \<Rightarrow> ''COUNT(*)'' | Some e \<Rightarrow> e)"

definition aggregate_grouped_query :: "string \<Rightarrow> string \<Rightarrow> string \<Rightarrow> string \<Rightarrow> string" where
  "aggregate_grouped_query group_cols metric_expr m w = join NL
     ['''',
      ''                SELECT '' @ group_cols @ '', '' @ metric_expr @ '' as '' @ m,
      ''                FROM '' @ table_name,
      ''                WHERE '' @ w,
      ''                GROUP BY '' @ group_cols,
      ''                ORDER BY '' @ m @ '' DESC'',
      ''                LIMIT 20'',
      ''            '']"

definition aggregate_query :: "string \<Rightarrow> string \<Rightarrow> string \<Rightarrow> string" where
  "aggregate_query metric_expr m w = join NL
     ['''',
      ''                SELECT '' @ metric_expr @ '' as '' @ m,
      ''                FROM '' @ table_name,
      ''                WHERE '' @ w,
      ''            '']"

text \<open>
  \<open>GROUP BY cols\<close>: one result row per distinct key among the rows \<open>rs\<close>, holding the
  key (each column as \<open>str\<close> renders it) and the metric's value over the group;
  \<open>ORDER BY metric DESC LIMIT 20\<close>, rows of equal value keeping their order.
\<close>

definition group_key :: "duckdb \<Rightarrow> string list \<Rightarrow> row \<Rightarrow> string list" where
  "group_key db cols r = map (\<lambda>c. expr_sem db c r) cols"

definition grouped_rows ::
  "duckdb \<Rightarrow> string list \<Rightarrow> string \<Rightarrow> row list \<Rightarrow> (string list \<times> pyval) list" where
  "grouped_rows db cols e rs =
     map (\<lambda>k. (k, agg_sem e (filter (\<lambda>r. group_key db cols r = k) rs)))
       (remdups (map (group_key db cols) rs))"

definition aggregate_grouped_select ::
  "duckdb \<Rightarrow> string list \<Rightarrow> string \<Rightarrow> row list \<Rightarrow> (string list \<times> pyval) list" where
  "aggregate_grouped_select db cols e rs =
     take 20 (sort_key (\<lambda>(k, v). - num v) (grouped_rows db cols e rs))"

definition group_number :: "string \<Rightarrow> string list \<times> pyval \<Rightarrow> NumberDetail" where
  "group_number m g =
     (case g of (k, v) \<Rightarrow>
        \<lparr>label = join '' - '' k,
         value_text = format_metric_value m v,
         raw_value = Some (float_or_zero v),
         calculation = None\<rparr>)"

definition group_point :: "string list \<times> pyval \<Rightarrow> ChartDataPoint" where
  "group_point g =
     (case g of (k, v) \<Rightarrow>
        \<lparr>point_x = join '' - '' k, point_y = float_or_zero v, point_label = None\<rparr>)"

definition aggregate ::
  "(nat \<Rightarrow> string) \<Rightarrow> duckdb option \<Rightarrow> string \<Rightarrow> string list option
     \<Rightarrow> PrimaryFilters option \<Rightarrow> time_window option \<Rightarrow> AnalysisResult" where
  "aggregate ymd_days_ago conn m by filters time_window =
     (case conn of
        None \<Rightarrow> failed_result m ''N/A'' ''Dataset not loaded''
      | Some db \<Rightarrow>
          (case build_where_clause (or_default_filters filters) of
             (w0, params) \<Rightarrow>
          (case apply_time_window ymd_days_ago w0 time_window of
             (w, time_params) \<Rightarrow>
          let metric_expr = metric_expr_get metric_expr_map_aggregate m;
              cols = (case by of None \<Rightarrow> [] | Some bs \<Rightarrow> bs);
              rs = rows_where db w
          in
          if cols \<noteq> [] then
            (let query = aggregate_grouped_query (join '', '' cols) metric_expr m w in
             case execute db query (aggregate_grouped_select db cols metric_expr rs) of
               Inl e \<Rightarrow> failed_result m (strip query) e
             | Inr df \<Rightarrow>
                 \<lparr>success = True,
                  result_metric = m,
                  numbers = map (group_number m) df,
                  query_executed = strip query,
                  sample_rows = None,
                  chart_data = Some
                    \<lparr>chart_type = BAR,
                     title_text = Some (metric_title m @ '' by '' @ join '', '' cols),
                     x_label = None, y_label = None, points = map group_point df,
                     series_name = None\<rparr>,
                  error = None\<rparr>)
          else
            (let query = aggregate_query metric_expr m w in
             case execute db query [agg_sem metric_expr rs] of
               Inl e \<Rightarrow> failed_result m (strip query) e
             | Inr df \<Rightarrow>
                 let v = (case df of [] \<Rightarrow> IntV 0 | v0 # rest \<Rightarrow> v0) in
                 \<lparr>success = True,
                  result_metric = m,
                  numbers =
                    [\<lparr>label = metric_title m,
                      value_text = format_metric_value m v,
                      raw_value = Some (float_or_zero v),
                      calculation = None\<rparr>],
                  query_executed = strip query,
                  sample_rows = None,
                  chart_data = None,
                  error = None\<rparr>))))"

subsection \<open>\<open>compare_segments\<close>\<close>

definition metric_expr_map_compare :: "(string \<times> string) list" where
  "metric_expr_map_compare =
     [(''failure_rate'', failure_rate_expr),
      (''avg_amount'', avg_amount_expr),
      (''volume'', count_expr),
      (''total_amount'', total_amount_expr)]"

text \<open>A segment is a \<open>Dict[str, str]\<close>: its items in insertion order.\<close>

type_synonym segment = "(string \<times> string) list"

definition seg_conds :: "segment \<Rightarrow> string" where
  "seg_conds seg = join '' AND '' (map (\<lambda>(k, v). k @ '' = '' @ SQ @ v @ SQ) seg)"

definition seg_label :: "segment \<Rightarrow> string" where
  "seg_label seg = join '' & '' (map (\<lambda>(k, v). k @ '': '' @ v) seg)"

definition compare_query :: "string \<Rightarrow> string \<Rightarrow> string \<Rightarrow> string \<Rightarrow> string \<Rightarrow> string" where
  "compare_query metric_expr m base_where seg_a_conds seg_b_conds = join NL
     ['''',
      ''            SELECT '',
      ''                'Segment A' as segment,'',
      ''                '' @ metric_expr @ '' as '' @ m @ '','',
      ''                COUNT(*) as sample_size'',
      ''            FROM '' @ table_name,
      ''            WHERE '' @ base_where @ '' AND '' @ seg_a_conds,
      ''            '',
      ''            UNION ALL'',
      ''            '',
      ''            SELECT '',
      ''                'Segment B' as segment,'',
      ''                '' @ metric_expr @ '' as '' @ m @ '','',
      ''                COUNT(*) as sample_size'',
      ''            FROM '' @ table_name,
      ''            WHERE '' @ base_where @ '' AND '' @ seg_b_conds,
      ''        '']"

text \<open>One branch of the \<open>UNION ALL\<close>: the metric's value and \<open>COUNT(*)\<close> over a segment.\<close>

definition segment_rows :: "duckdb \<Rightarrow> string \<Rightarrow> string \<Rightarrow> row list" where
  "segment_rows db base_where conds =
     filter (\<lambda>r. where_sem db base_where r \<and> where_sem db conds r) (tbl db)"

definition segment_select :: "duckdb \<Rightarrow> string \<Rightarrow> string \<Rightarrow> string \<Rightarrow> pyval \<times> int" where
  "segment_select db metric_expr base_where conds =
     (agg_sem metric_expr (segment_rows db base_where conds),
      int (length (segment_rows db base_where conds)))"

definition compare_segments ::
  "(nat \<Rightarrow> string) \<Rightarrow> duckdb option \<Rightarrow> segment \<Rightarrow> segment \<Rightarrow> string
     \<Rightarrow> PrimaryFilters option \<Rightarrow> time_window option \<Rightarrow> AnalysisResult" where
  "compare_segments ymd_days_ago conn segment_a segment_b m filters time_window =
     (case conn of
        None \<Rightarrow> failed_result m ''N/A'' ''Dataset not loaded''
      | Some db \<Rightarrow>
          (case build_where_clause (or_default_filters filters) of
             (w0, params) \<Rightarrow>
          (case apply_time_window ymd_days_ago w0 time_window of
             (base_where, time_params) \<Rightarrow>
          let seg_a_conds = seg_conds segment_a;
              seg_b_conds = seg_conds segment_b;
              metric_expr = metric_expr_get metric_expr_map_compare m;
              query = compare_query metric_expr m base_where seg_a_conds seg_b_conds
          in
          (case execute db query
                 [segment_select db metric_expr base_where seg_a_conds,
                  segment_select db metric_expr base_where seg_b_conds] of
            Inl e \<Rightarrow> failed_result m (strip query) e
          | Inr df \<Rightarrow>
              let seg_a_label = seg_label segment_a;
                  seg_b_label = seg_label segment_b;
                  val_a = (if length df > 0 then py_float (fst (df ! 0)) else IntV 0);
                  val_b = (if length df > 1 then py_float (fst (df ! 1)) else IntV 0);
                  size_a = (if length df > 0 then snd (df ! 0) else 0);
                  size_b = (if length df > 1 then snd (df ! 1) else 0);
                  diff = py_sub val_a val_b;
                  pct_diff = (if nonzero val_b then py_mul (py_div diff val_b) (IntV 100)
                              else IntV 0)
              in
              \<lparr>success = True,
               result_metric = m,
               numbers =
                 [\<lparr>label = metric_title m @ '' ('' @ seg_a_label @ '')'',
                   value_text = format_metric_value m val_a,
                   raw_value = Some val_a,
                   calculation = Some
                     \<lparr>numerator = None, denominator = None, formula = None,
                      sample_size = Some size_a\<rparr>\<rparr>,
                  \<lparr>label = metric_title m @ '' ('' @ seg_b_label @ '')'',
                   value_text = format_metric_value m val_b,
                   raw_value = Some val_b,
                   calculation = Some
                     \<lparr>numerator = None, denominator = None, formula = None,
                      sample_size = Some size_b\<rparr>\<rparr>,
                  \<lparr>label = ''Difference'',
                   value_text = [Fmt ''+.2f'' (Some diff), Lit '' ('',
                                 Fmt ''+.1f'' (Some pct_diff), Lit ''%)''],
                   raw_value = Some diff,
                   calculation = None\<rparr>],
               query_executed = strip query,
               sample_rows = None,
               chart_data = Some
                 \<lparr>chart_type = BAR,
                  title_text = Some (metric_title m @ '' Comparison''),
                  x_label = None, y_label = None,
                  points = [\<lparr>point_x = seg_a_label, point_y = val_a, point_label = None\<rparr>,
                            \<lparr>point_x = seg_b_label, point_y = val_b, point_label = None\<rparr>],
                  series_name = None\<rparr>,
               error = None\<rparr>))))"

subsection \<open>\<open>time_series\<close>\<close>

definition metric_expr_map_time_series :: "(string \<times> string) list" where
  "metric_expr_map_time_series =
     [(''volume'', count_expr),
      (''count'', count_expr),
      (''avg_amount'', avg_amount_expr),
      (''total_amount'', total_amount_expr),
      (''failure_rate'', failure_rate_expr)]"

definition time_expr_of :: "string \<Rightarrow> string \<Rightarrow> string" where
  "time_expr_of period time_col =
     (if period = ''week'' then ''DATE_TRUNC('week', '' @ time_col @ '')''
      else if period = ''month'' then ''DATE_TRUNC('month', '' @ time_col @ '')''
      else time_col)"

definition time_series_grouped_query ::
  "string \<Rightarrow> string \<Rightarrow> string \<Rightarrow> string \<Rightarrow> string \<Rightarrow> string" where
  "time_series_grouped_query time_expr group_by metric_expr m w = join NL
     ['''',
      ''                SELECT '' @ time_expr @ '' as time_period, '' @ group_by @ '', ''
         @ metric_expr @ '' as '' @ m,
      ''                FROM '' @ table_name,
      ''                WHERE '' @ w,
      ''                GROUP BY '' @ time_expr @ '', '' @ group_by,
      ''                ORDER BY time_period, '' @ group_by,
      ''            '']"

definition time_series_query :: "string \<Rightarrow> string \<Rightarrow> string \<Rightarrow> string \<Rightarrow> string" where
  "time_series_query time_expr metric_expr m w = join NL
     ['''',
      ''                SELECT '' @ time_expr @ '' as time_period, '' @ metric_expr @ '' as '' @ m,
      ''                FROM '' @ table_name,
      ''                WHERE '' @ w,
      ''                GROUP BY '' @ time_expr,
      ''                ORDER BY time_period'',
      ''            '']"

text \<open>
  One result row per distinct (bucket, group) among the rows \<open>rs\<close>: the bucket and the
  group as \<open>str\<close> renders them, and the metric's value. \<open>ORDER BY\<close> is the order of
  the rendered texts (ISO dates order as their dates do).
\<close>

definition bucket_key :: "duckdb \<Rightarrow> string \<Rightarrow> string option \<Rightarrow> row \<Rightarrow> string \<times> string option" where
  "bucket_key db time_expr group_by r =
     (expr_sem db time_expr r, map_option (\<lambda>g. expr_sem db g r) group_by)"

definition bucket_rows ::
  "duckdb \<Rightarrow> string \<Rightarrow> string option \<Rightarrow> string \<Rightarrow> row list
     \<Rightarrow> (string \<times> string option \<times> pyval) list" where
  "bucket_rows db time_expr group_by e rs =
     map (\<lambda>k. (fst k, snd k, agg_sem e (filter (\<lambda>r. bucket_key db time_expr group_by r = k) rs)))
       (remdups (map (bucket_key db time_expr group_by) rs))"

definition time_series_select ::
  "duckdb \<Rightarrow> string \<Rightarrow> string option \<Rightarrow> string \<Rightarrow> row list
     \<Rightarrow> (string \<times> string option \<times> pyval) list" where
  "time_series_select db time_expr group_by e rs =
     sort_key (\<lambda>(t, g, v). t)
       (sort_key (\<lambda>(t, g, v). case g of None \<Rightarrow> [] | Some s \<Rightarrow> s)
          (bucket_rows db time_expr group_by e rs))"

definition bucket_number :: "string \<Rightarrow> string \<times> string option \<times> pyval \<Rightarrow> NumberDetail" where
  "bucket_number m b =
     (case b of (time_val, g, v) \<Rightarrow>
        \<lparr>label = (case g of None \<Rightarrow> time_val | Some s \<Rightarrow> time_val @ '' ('' @ s @ '')''),
         value_text = format_metric_value m (float_or_zero v),
         raw_value = Some (float_or_zero v),
         calculation = None\<rparr>)"

definition bucket_point :: "string \<times> string option \<times> pyval \<Rightarrow> ChartDataPoint" where
  "bucket_point b =
     (case b of (time_val, g, v) \<Rightarrow>
        \<lparr>point_x = time_val, point_y = float_or_zero v, point_label = g\<rparr>)"

definition time_series ::
  "(nat \<Rightarrow> string) \<Rightarrow> duckdb option \<Rightarrow> string \<Rightarrow> string \<Rightarrow> string
     \<Rightarrow> PrimaryFilters option \<Rightarrow> time_window option \<Rightarrow> string option \<Rightarrow> AnalysisResult" where
  "time_series ymd_days_ago conn m time_col period filters time_window group_by =
     (case conn of
        None \<Rightarrow> failed_result m ''N/A'' ''Dataset not loaded''
      | Some db \<Rightarrow>
          (case build_where_clause (or_default_filters filters) of
             (w0, params) \<Rightarrow>
          (case apply_time_window ymd_days_ago w0 time_window of
             (w, time_params) \<Rightarrow>
          let time_expr = time_expr_of period time_col;
              metric_expr = metric_expr_get metric_expr_map_time_series m;
              grouping = (if truthy group_by then group_by else None);
              query = (case grouping of
                         Some g \<Rightarrow> time_series_grouped_query time_expr g metric_expr m w
                       | None \<Rightarrow> time_series_query time_expr metric_expr m w)
          in
          (case execute db query
                  (time_series_select db time_expr grouping metric_expr (rows_where db w)) of
             Inl e \<Rightarrow> failed_result m (strip query) e
           | Inr df \<Rightarrow>
               \<lparr>success = True,
                result_metric = m,
                numbers = take 20 (map (bucket_number m) df),
                query_executed = strip query,
                sample_rows = None,
                chart_data = Some
                  \<lparr>chart_type = LINE,
                   title_text = Some (metric_title m @ '' over Time''),
                   x_label = Some ''Date'',
                   y_label = Some (metric_title m),
                   points = map bucket_point df,
                   series_name = None\<rparr>,
                error = None\<rparr>))))"

section \<open>Notions of the specification\<close>

text \<open>
  The fields of a Filters value that are set, as (column, value) pairs in the order of
  the fixed list of dimensions.
\<close>

fun some_items :: "('a \<times> 'b option) list \<Rightarrow> ('a \<times> 'b) list" where
  "some_items [] = []"
| "some_items ((k, None) # rest) = some_items rest"
| "some_items ((k, Some v) # rest) = (k, v) # some_items rest"

definition set_fields :: "PrimaryFilters \<Rightarrow> (string \<times> string) list" where
  "set_fields filters = some_items (filter_map filters)"

text \<open>The number of parameter placeholders \<open>?\<close> in a predicate text.\<close>

definition placeholders :: "string \<Rightarrow> nat" where
  "placeholders s = count_list s CHR ''?''"

text \<open>
  The bounds of a time window as the specification lists them: the relative bound of a
  period tag (\<open>now - N days\<close> with \<open>N\<close> = 7, 30 or 90 for the three tags and 30 for any
  other tag), then the explicit lower and upper bounds. Each bound is on column
  \<open>timestamp\<close>.
\<close>

datatype bound = TimestampGe string | TimestampLe string

fun render_bound :: "bound \<Rightarrow> string" where
  "render_bound (TimestampGe d) = '' AND timestamp >= '' @ SQ @ d @ SQ"
| "render_bound (TimestampLe d) = '' AND timestamp <= '' @ SQ @ d @ SQ"

definition tag_days :: "string \<Rightarrow> nat" where
  "tag_days tag =
     (if tag = ''last_7_days'' then 7 else if tag = ''last_90_days'' then 90 else 30)"

definition relative_bound :: "(nat \<Rightarrow> string) \<Rightarrow> time_window \<Rightarrow> bound list" where
  "relative_bound ymd_days_ago tw =
     (case dict_get tw ''period'' of
        None \<Rightarrow> []
      | Some tag \<Rightarrow> if tag = [] then [] else [TimestampGe (ymd_days_ago (tag_days tag))])"

definition given :: "string option \<Rightarrow> string list" where
  "given v = (case v of None \<Rightarrow> [] | Some d \<Rightarrow> if d = [] then [] else [d])"

definition explicit_bounds :: "time_window \<Rightarrow> bound list" where
  "explicit_bounds tw =
     map TimestampGe (take 1 (given (dict_get tw ''from_date'') @ given (dict_get tw ''from'')))
     @ map TimestampLe (take 1 (given (dict_get tw ''to_date'') @ given (dict_get tw ''to'')))"

section \<open>An engine for the examples\<close>

text \<open>
  A small engine on which the operations can be run: it raises on a query text that
  holds a parameter placeholder (no parameter is ever bound), reads a predicate text as
  the conjunction of its \<open>AND\<close>-separated conditions (\<open>1=1\<close>, \<open>column = 'text'\<close>,
  \<open>timestamp >= 'text'\<close>, \<open>timestamp <= 'text'\<close>; any other condition selects no row),
  and a grouping expression as a column name.
\<close>

definition unbound_parameter_error :: string where
  "unbound_parameter_error =
     ''Invalid Input Error: Values were not provided for the following prepared statement parameters: 1''"

fun conjuncts_from :: "string \<Rightarrow> string \<Rightarrow> string list" where
  "conjuncts_from acc [] = [rev acc]"
| "conjuncts_from acc (c # cs) =
     (if take 5 (c # cs) = '' AND '' then rev acc # conjuncts_from [] (drop 4 cs)
      else conjuncts_from (c # acc) cs)"

definition column :: "string \<Rightarrow> row \<Rightarrow> string option" where
  "column name r =
     (if name = ''transaction_id'' then Some (transaction_id r)
      else if name = ''timestamp'' then Some (timestamp r)
      else if name = ''payment_method'' then Some (row_payment_method r)
      else if name = ''device'' then Some (row_device r)
      else if name = ''state'' then Some (row_state r)
      else if name = ''age_group'' then Some (row_age_group r)
      else if name = ''network'' then Some (row_network r)
      else if name = ''category'' then Some (row_category r)
      else if name = ''status'' then Some (row_status r)
      else if name = ''failure_code'' then failure_code r
      else if name = ''date_only'' then Some (date_only r)
      else None)"

text \<open>The text between the quotes of \<open>'text'\<close>.\<close>

definition quoted :: "string \<Rightarrow> string option" where
  "quoted s =
     (if 2 \<le> length s \<and> take 1 s = SQ \<and> drop (length s - 1) s = SQ
      then Some (take (length s - 2) (drop 1 s)) else None)"

definition condition_sem :: "string \<Rightarrow> row \<Rightarrow> bool" where
  "condition_sem c r =
     (if c = ''1=1'' then True
      else
        let name = takeWhile (\<lambda>x. x \<noteq> CHR '' '') c;
            rest = dropWhile (\<lambda>x. x \<noteq> CHR '' '') c
        in
        if take 3 rest = '' = '' then
          (case quoted (drop 3 rest) of
             None \<Rightarrow> False
           | Some v \<Rightarrow> column name r = Some v)
        else if name = ''timestamp'' \<and> take 4 rest = '' >= '' then
          (case quoted (drop 4 rest) of None \<Rightarrow> False | Some v \<Rightarrow> v \<le> timestamp r)
        else if name = ''timestamp'' \<and> take 4 rest = '' <= '' then
          (case quoted (drop 4 rest) of None \<Rightarrow> False | Some v \<Rightarrow> timestamp r \<le> v)
        else False)"

definition example_engine :: "row list \<Rightarrow> duckdb" where
  "example_engine rows =
     \<lparr>tbl = rows,
      raises = (\<lambda>q. if CHR ''?'' \<in> set q then Some unbound_parameter_error else None),
      where_sem = (\<lambda>w r. list_all (\<lambda>c. condition_sem c r) (conjuncts_from [] w)),
      expr_sem = (\<lambda>e r. case column e r of None \<Rightarrow> '''' | Some v \<Rightarrow> v)\<rparr>"

text \<open>A transaction of the examples: its id, day, device, status and failure code.\<close>

definition txn :: "string \<Rightarrow> string \<Rightarrow> string \<Rightarrow> string \<Rightarrow> string option \<Rightarrow> row" where
  "txn i day dev st code =
     \<lparr>transaction_id = i, timestamp = day @ '' 10:00:00'', amount = 100,
      row_payment_method = ''UPI'', row_device = dev, row_state = ''Goa'',
      row_age_group = ''25-34'', row_network = ''4G'', row_category = ''Food'',
      row_status = st, failure_code = code, fraud_flag = 0, review_flag = 0,
      date_only = day\<rparr>"

text \<open>\<open>ymd_days_ago\<close> of the examples: the day is 2025-04-01.\<close>

definition example_days_ago :: "nat \<Rightarrow> string" where
  "example_days_ago n =
     (if n = 7 then ''2025-03-25'' else if n = 30 then ''2025-03-02''
      else if n = 90 then ''2025-01-01'' else ''2025-04-01'')"

text \<open>
  The shape of a result that reports a failure: \<open>error\<close> is populated, \<open>numbers\<close> is
  empty, and the query text is populated. A successful result is not concerned.
\<close>

definition failure_shape :: "AnalysisResult \<Rightarrow> bool" where
  "failure_shape r \<longleftrightarrow>
     success r \<or> (error r \<noteq> None \<and> numbers r = [] \<and> query_executed r \<noteq> [])"

text \<open>
  The predicate that every operation compiles from its filters and its time window.
\<close>

definition resolved_predicate ::
  "(nat \<Rightarrow> string) \<Rightarrow> PrimaryFilters option \<Rightarrow> time_window option \<Rightarrow> string" where
  "resolved_predicate ymd_days_ago filters time_window =
     fst (apply_time_window ymd_days_ago
            (fst (build_where_clause (or_default_filters filters))) time_window)"

text \<open>
  The signed difference \<open>A - B\<close> of two float values, and the percentage difference with
  \<open>B\<close> as the denominator, which is zero when \<open>B\<close> is zero. \<open>NaN\<close> propagates.
\<close>

definition signed_difference :: "pyval \<Rightarrow> pyval \<Rightarrow> pyval" where
  "signed_difference a b = (if notna a \<and> notna b then FloatV (num a - num b) else NaN)"

definition percentage_difference :: "pyval \<Rightarrow> pyval \<Rightarrow> pyval" where
  "percentage_difference a b =
     (if notna b \<and> num b = 0 then IntV 0
      else if notna a \<and> notna b then FloatV ((num a - num b) / num b * 100)
      else NaN)"

text \<open>Two transactions: a failed one on Android, a successful one on iOS.\<close>

definition two_devices :: "row list" where
  "two_devices =
     [txn ''t1'' ''2025-01-01'' ''Android'' ''Failed'' (Some ''TIMEOUT''),
      txn ''t2'' ''2025-01-02'' ''iOS'' ''Success'' None]"

text \<open>A hundred transactions of which ten failed; filters that set only the device.\<close>

definition hundred_rows :: "row list" where
  "hundred_rows =
     replicate 90 (txn ''ok'' ''2025-01-01'' ''Android'' ''Success'' None)
     @ replicate 10 (txn ''ko'' ''2025-01-02'' ''iOS'' ''Failed'' (Some ''TIMEOUT''))"

definition android_only :: PrimaryFilters where
  "android_only = PrimaryFilters_default\<lparr>device := Some ''Android''\<rparr>"

definition ios_only :: PrimaryFilters where
  "ios_only = PrimaryFilters_default\<lparr>device := Some ''iOS''\<rparr>"

text \<open>The query text of \<open>time_series\<close>, with or without a secondary grouping.\<close>

definition time_series_text ::
  "string \<Rightarrow> string option \<Rightarrow> string \<Rightarrow> string \<Rightarrow> string \<Rightarrow> string" where
  "time_series_text time_expr group_by metric_expr m w =
     (case (if truthy group_by then group_by else None) of
        Some g \<Rightarrow> time_series_grouped_query time_expr g metric_expr m w
      | None \<Rightarrow> time_series_query time_expr metric_expr m w)"

text \<open>Twenty-one transactions, one a day.\<close>

definition twenty_one_days :: "row list" where
  "twenty_one_days =
     map (\<lambda>d. txn d d ''Android'' ''Success'' None)
       [''2025-01-01'', ''2025-01-02'', ''2025-01-03'', ''2025-01-04'', ''2025-01-05'',
        ''2025-01-06'', ''2025-01-07'', ''2025-01-08'', ''2025-01-09'', ''2025-01-10'',
        ''2025-01-11'', ''2025-01-12'', ''2025-01-13'', ''2025-01-14'', ''2025-01-15'',
        ''2025-01-16'', ''2025-01-17'', ''2025-01-18'', ''2025-01-19'', ''2025-01-20'',
        ''2025-01-21'']"

text \<open>The number of points of the chart series of a result, if it has one.\<close>

definition chart_points :: "AnalysisResult \<Rightarrow> nat option" where
  "chart_points r = map_option (\<lambda>c. length (points c)) (chart_data r)"

text \<open>
  For the top-N breakdown: the rows the query selects (the failed rows among those the
  predicate selects), the exact percentage that \<open>n\<close> of them are, and the label of a
  failure code.
\<close>

definition failed_rows :: "duckdb \<Rightarrow> string \<Rightarrow> row list" where
  "failed_rows db w = filter is_failed (rows_where db w)"

definition exact_share :: "row list \<Rightarrow> int \<Rightarrow> rat" where
  "exact_share rs n = 100 * of_int n / of_nat (length rs)"

definition code_label :: "string option \<Rightarrow> string" where
  "code_label c = (case c of None \<Rightarrow> ''Unknown'' | Some s \<Rightarrow> s)"

text \<open>Six failures with six codes; four transactions of which three failed.\<close>

definition six_codes :: "row list" where
  "six_codes =
     map (\<lambda>c. txn c ''2025-01-01'' ''Android'' ''Failed'' (Some c))
       [''TIMEOUT'', ''NETWORK_ERROR'', ''BANK_DECLINED'', ''INSUFFICIENT_FUNDS'',
        ''INVALID_PIN'', ''LIMIT_EXCEEDED'']"

definition mixed_codes :: "row list" where
  "mixed_codes =
     [txn ''t1'' ''2025-01-01'' ''Android'' ''Failed'' None,
      txn ''t2'' ''2025-01-01'' ''Android'' ''Success'' None,
      txn ''t3'' ''2025-01-02'' ''iOS'' ''Failed'' (Some ''TIMEOUT''),
      txn ''t4'' ''2025-01-03'' ''Web'' ''Failed'' (Some ''TIMEOUT'')]"

section \<open>Properties\<close>

subsection \<open>Strings\<close>

lemma lower_eq_Nil [simp]: "lower s = [] \<longleftrightarrow> s = []"
  by (simp add: lower_def)

subsection \<open>The guard and the metric expression maps\<close>

lemma not_in_vocabulary_None:
  "not_in_vocabulary v vocabulary = None \<longleftrightarrow>
     (case map_option lower v of None \<Rightarrow> True | Some l \<Rightarrow> l = [] \<or> l \<in> set vocabulary)"
  by (cases v) (auto simp: not_in_vocabulary_def)

lemma is_metric_computable_verdict:
  "fst (is_metric_computable intent) \<longleftrightarrow>
     not_in_vocabulary (metric intent) supported_metrics = None
     \<and> not_in_vocabulary (device (primary_filters intent)) valid_devices = None
     \<and> not_in_vocabulary (network (primary_filters intent)) valid_networks = None"
  by (simp add: is_metric_computable_def Let_def split: option.splits)

text \<open>
  Claim C1 says that every metric name the guard accepts is a key of the aggregation
  expression map of the operations. The guard accepts \<open>fraud_rate\<close>, and none of the
  three maps (of \<open>aggregate\<close>, \<open>compare_segments\<close>, \<open>time_series\<close>) has that key.
\<close>

theorem guard_accepts_metric_without_expression:
  "is_metric_computable
     \<lparr>intent_type = METRIC_QUERY, metric = Some ''fraud_rate'',
      primary_filters = PrimaryFilters_default\<rparr> = (True, '''')
   \<and> map_of metric_expr_map_aggregate (lower ''fraud_rate'') = None
   \<and> map_of metric_expr_map_compare (lower ''fraud_rate'') = None
   \<and> map_of metric_expr_map_time_series (lower ''fraud_rate'') = None"
  by (simp add: is_metric_computable_def not_in_vocabulary_def supported_metrics_def
      PrimaryFilters_default_def lower_def lower_char_def metric_expr_map_aggregate_def
      metric_expr_map_compare_def metric_expr_map_time_series_def)

text \<open>
  Claim C10: the guard's membership checks are case-insensitive. Its verdict depends
  only on the lower-cased metric, device and network of the intent, so intents that
  agree on these up to case get the same verdict whatever their \<open>age_group\<close>,
  \<open>category\<close>, \<open>state\<close>, \<open>payment_method\<close> and \<open>status\<close> are; metric \<open>FAILURE_RATE\<close>
  with device \<open>ANDROID\<close> is accepted, with any values of those five fields.
\<close>

theorem guard_membership_case_insensitive:
  "(map_option lower (metric i) = map_option lower (metric j)
      \<and> map_option lower (device (primary_filters i)) = map_option lower (device (primary_filters j))
      \<and> map_option lower (network (primary_filters i)) = map_option lower (network (primary_filters j))
      \<longrightarrow> fst (is_metric_computable i) = fst (is_metric_computable j))
   \<and> is_metric_computable
        \<lparr>intent_type = k, metric = Some ''FAILURE_RATE'',
         primary_filters =
           \<lparr>device = Some ''ANDROID'', state = st, age_group = ag, network = None,
            category = ca, payment_method = pm, status = su\<rparr>\<rparr> = (True, '''')"
proof (intro conjI impI)
  assume "map_option lower (metric i) = map_option lower (metric j)
      \<and> map_option lower (device (primary_filters i)) = map_option lower (device (primary_filters j))
      \<and> map_option lower (network (primary_filters i)) = map_option lower (network (primary_filters j))"
  then show "fst (is_metric_computable i) = fst (is_metric_computable j)"
    by (simp add: is_metric_computable_verdict not_in_vocabulary_None)
next
  show "is_metric_computable
        \<lparr>intent_type = k, metric = Some ''FAILURE_RATE'',
         primary_filters =
           \<lparr>device = Some ''ANDROID'', state = st, age_group = ag, network = None,
            category = ca, payment_method = pm, status = su\<rparr>\<rparr> = (True, '''')"
    by (simp add: is_metric_computable_def not_in_vocabulary_def supported_metrics_def
        valid_devices_def lower_def lower_char_def)
qed

theorem guard_membership_case_insensitive_witness:
  "fst (is_metric_computable
     \<lparr>intent_type = METRIC_QUERY, metric = Some ''Volume'',
      primary_filters =
        \<lparr>device = Some ''iOS'', state = Some ''Goa'', age_group = Some ''no such group'',
         network = Some ''WiFi'', category = Some ''Food'', payment_method = Some ''UPI'',
         status = Some ''Failed''\<rparr>\<rparr>)
   = fst (is_metric_computable
     \<lparr>intent_type = TIME_SERIES, metric = Some ''volume'',
      primary_filters =
        \<lparr>device = Some ''ios'', state = None, age_group = None,
         network = Some ''wifi'', category = None, payment_method = None,
         status = None\<rparr>\<rparr>)
   \<and> fst (is_metric_computable
     \<lparr>intent_type = TIME_SERIES, metric = Some ''volume'',
      primary_filters =
        \<lparr>device = Some ''ios'', state = None, age_group = None,
         network = Some ''wifi'', category = None, payment_method = None,
         status = None\<rparr>\<rparr>)"
proof -
  let ?i = "\<lparr>intent_type = METRIC_QUERY, metric = Some ''Volume'',
      primary_filters =
        \<lparr>device = Some ''iOS'', state = Some ''Goa'', age_group = Some ''no such group'',
         network = Some ''WiFi'', category = Some ''Food'', payment_method = Some ''UPI'',
         status = Some ''Failed''\<rparr>\<rparr>"
  let ?j = "\<lparr>intent_type = TIME_SERIES, metric = Some ''volume'',
      primary_filters =
        \<lparr>device = Some ''ios'', state = None, age_group = None,
         network = Some ''wifi'', category = None, payment_method = None,
         status = None\<rparr>\<rparr>"
  have "fst (is_metric_computable ?i) = fst (is_metric_computable ?j)"
    using guard_membership_case_insensitive [of ?i ?j]
    by (simp add: lower_def lower_char_def)
  moreover have "fst (is_metric_computable ?j)"
    by (simp add: is_metric_computable_def not_in_vocabulary_def supported_metrics_def
        valid_devices_def valid_networks_def lower_def lower_char_def)
  ultimately show ?thesis by simp
qed

subsection \<open>The predicate builder\<close>

lemma collect_conditions_some_items:
  "collect_conditions xs =
     (map (\<lambda>(c, v). c @ '' = ?'') (some_items xs), map snd (some_items xs))"
  by (induction xs rule: collect_conditions.induct) simp_all

lemma build_where_clause_set_fields:
  "build_where_clause f =
     ((if set_fields f = [] then ''1=1''
       else join '' AND '' (map (\<lambda>(c, v). c @ '' = ?'') (set_fields f))),
      map snd (set_fields f))"
  by (simp add: build_where_clause_def set_fields_def collect_conditions_some_items)

lemma count_list_join:
  "count_list (join sep xs) c =
     sum_list (map (\<lambda>x. count_list x c) xs) + (length xs - 1) * count_list sep c"
  by (induction sep xs rule: join.induct) simp_all

lemma some_items_keys: "fst ` set (some_items xs) \<subseteq> fst ` set xs"
  by (induction xs rule: some_items.induct) auto

lemma set_fields_columns:
  "(c, v) \<in> set (set_fields f) \<Longrightarrow>
     c \<in> {''device'', ''state'', ''age_group'', ''network'', ''category'',
           ''payment_method'', ''status''}"
  using some_items_keys [of "filter_map f"]
  by (force simp: set_fields_def filter_map_def)

lemma condition_placeholder:
  "(c, v) \<in> set (set_fields f) \<Longrightarrow> count_list (c @ '' = ?'') CHR ''?'' = 1"
  by (drule set_fields_columns) auto

lemma sum_list_all_one:
  "(\<And>x. x \<in> set xs \<Longrightarrow> g x = (1::nat)) \<Longrightarrow> sum_list (map g xs) = length xs"
  by (induction xs) simp_all

lemma placeholders_conditions:
  "sum_list (map (\<lambda>x. count_list x CHR ''?'') (map (\<lambda>(c, v). c @ '' = ?'') (set_fields f)))
     = length (set_fields f)"
proof -
  have "sum_list (map (\<lambda>x. count_list (fst x @ '' = ?'') CHR ''?'') (set_fields f))
          = length (set_fields f)"
  proof (rule sum_list_all_one)
    fix x assume "x \<in> set (set_fields f)"
    then show "count_list (fst x @ '' = ?'') CHR ''?'' = 1"
      using condition_placeholder [of "fst x" "snd x" f] by simp
  qed
  then show ?thesis by (simp add: o_def case_prod_beta)
qed

lemma placeholders_build_where_clause:
  "placeholders (fst (build_where_clause f)) = length (snd (build_where_clause f))"
  using placeholders_conditions [of f]
  by (simp add: build_where_clause_set_fields placeholders_def count_list_join)

lemma conditions_only_columns:
  "map (\<lambda>(c, v). c @ '' = ?'') xs = map (\<lambda>c. c @ '' = ?'') (map fst xs)"
  by (induction xs) auto

text \<open>
  Claim C3: the predicate builder returns the conjunction of one equality condition
  \<open>column = ?\<close> per set field, in the fixed order of the dimensions, with the values of
  these fields as the bound values in the same order; the text holds as many
  placeholders as there are bound values and depends only on which fields are set,
  never on their values; with no field set the result is the always-true predicate
  \<open>1=1\<close> with no bound value, which selects every row on an engine that reads \<open>1=1\<close> as
  true.
\<close>

theorem build_where_clause_conjunction:
  "build_where_clause f =
     ((if set_fields f = [] then ''1=1''
       else join '' AND '' (map (\<lambda>(c, v). c @ '' = ?'') (set_fields f))),
      map snd (set_fields f))
   \<and> placeholders (fst (build_where_clause f)) = length (snd (build_where_clause f))
   \<and> (map fst (set_fields f) = map fst (set_fields g)
        \<longrightarrow> fst (build_where_clause f) = fst (build_where_clause g))
   \<and> (set_fields f = [] \<longrightarrow> build_where_clause f = (''1=1'', []))
   \<and> (set_fields f = [] \<and> where_sem db ''1=1'' = (\<lambda>r. True)
        \<longrightarrow> rows_where db (fst (build_where_clause f)) = tbl db)"
proof (intro conjI impI)
  show "build_where_clause f =
     ((if set_fields f = [] then ''1=1''
       else join '' AND '' (map (\<lambda>(c, v). c @ '' = ?'') (set_fields f))),
      map snd (set_fields f))"
    by (rule build_where_clause_set_fields)
  show "placeholders (fst (build_where_clause f)) = length (snd (build_where_clause f))"
    by (rule placeholders_build_where_clause)
next
  assume eq: "map fst (set_fields f) = map fst (set_fields g)"
  then have "set_fields f = [] \<longleftrightarrow> set_fields g = []"
    by (metis map_is_Nil_conv)
  with eq show "fst (build_where_clause f) = fst (build_where_clause g)"
    by (simp add: build_where_clause_set_fields conditions_only_columns)
next
  assume "set_fields f = []"
  then show "build_where_clause f = (''1=1'', [])"
    by (simp add: build_where_clause_set_fields)
next
  assume "set_fields f = [] \<and> where_sem db ''1=1'' = (\<lambda>r. True)"
  then show "rows_where db (fst (build_where_clause f)) = tbl db"
    by (simp add: build_where_clause_set_fields rows_where_def)
qed

theorem build_where_clause_conjunction_witness:
  "build_where_clause
     \<lparr>device = Some ''Android'', state = None, age_group = None, network = None,
      category = None, payment_method = None, status = Some ''Failed''\<rparr>
     = (''device = ? AND status = ?'', [''Android'', ''Failed''])
   \<and> fst (build_where_clause
     \<lparr>device = Some ''Android'', state = None, age_group = None, network = None,
      category = None, payment_method = None, status = Some ''Failed''\<rparr>)
     = fst (build_where_clause
     \<lparr>device = Some ''iOS'', state = None, age_group = None, network = None,
      category = None, payment_method = None, status = Some ''Success''\<rparr>)
   \<and> build_where_clause PrimaryFilters_default = (''1=1'', [])
   \<and> rows_where (example_engine [txn ''t1'' ''2025-01-01'' ''Android'' ''Failed'' None])
         (fst (build_where_clause PrimaryFilters_default))
       = [txn ''t1'' ''2025-01-01'' ''Android'' ''Failed'' None]"
proof -
  let ?f = "\<lparr>device = Some ''Android'', state = None, age_group = None, network = None,
      category = None, payment_method = None, status = Some ''Failed''\<rparr>"
  let ?g = "\<lparr>device = Some ''iOS'', state = None, age_group = None, network = None,
      category = None, payment_method = None, status = Some ''Success''\<rparr>"
  let ?db = "example_engine [txn ''t1'' ''2025-01-01'' ''Android'' ''Failed'' None]"
  have sem: "where_sem ?db ''1=1'' = (\<lambda>r. True)"
    by (simp add: example_engine_def condition_sem_def fun_eq_iff)
  have none: "set_fields PrimaryFilters_default = []"
    by (simp add: set_fields_def filter_map_def PrimaryFilters_default_def)
  note at_f = build_where_clause_conjunction [of ?f ?g ?db]
  note at_default = build_where_clause_conjunction [of PrimaryFilters_default ?g ?db]
  have "build_where_clause ?f = (''device = ? AND status = ?'', [''Android'', ''Failed''])"
    using at_f [THEN conjunct1] by (simp add: set_fields_def filter_map_def)
  moreover have "fst (build_where_clause ?f) = fst (build_where_clause ?g)"
    using at_f [THEN conjunct2, THEN conjunct2, THEN conjunct1]
    by (simp add: set_fields_def filter_map_def)
  moreover have "build_where_clause PrimaryFilters_default = (''1=1'', [])"
    using at_default [THEN conjunct2, THEN conjunct2, THEN conjunct2, THEN conjunct1] none
    by simp
  moreover have "rows_where ?db (fst (build_where_clause PrimaryFilters_default)) = tbl ?db"
    using at_default [THEN conjunct2, THEN conjunct2, THEN conjunct2, THEN conjunct2] sem none
    by simp
  ultimately show ?thesis by (simp add: example_engine_def)
qed

subsection \<open>The time window resolver\<close>

lemma period_days_tag_days: "period_days tag = tag_days tag"
  by (simp add: period_days_def tag_days_def)

lemma py_or_given:
  "(case py_or a b of None \<Rightarrow> [] | Some d \<Rightarrow> if d = [] then [] else [d])
     = take 1 (given a @ given b)"
  by (cases a; cases b) (auto simp: py_or_def given_def)

lemma apply_time_window_Some:
  "apply_time_window ymd_days_ago base_where (Some tw) =
     (base_where
        @ concat (map render_bound (relative_bound ymd_days_ago tw @ explicit_bounds tw)),
      [])"
proof -
  let ?from = "py_or (dict_get tw ''from_date'') (dict_get tw ''from'')"
  let ?to = "py_or (dict_get tw ''to_date'') (dict_get tw ''to'')"
  have from_eq:
    "map TimestampGe (take 1 (given (dict_get tw ''from_date'') @ given (dict_get tw ''from'')))
      = (case ?from of None \<Rightarrow> [] | Some d \<Rightarrow> if d = [] then [] else [TimestampGe d])"
    unfolding py_or_given [symmetric] by (simp split: option.splits)
  have to_eq:
    "map TimestampLe (take 1 (given (dict_get tw ''to_date'') @ given (dict_get tw ''to'')))
      = (case ?to of None \<Rightarrow> [] | Some d \<Rightarrow> if d = [] then [] else [TimestampLe d])"
    unfolding py_or_given [symmetric] by (simp split: option.splits)
  have empty: "tw = [] \<Longrightarrow> relative_bound ymd_days_ago tw @ explicit_bounds tw = []"
    by (simp add: relative_bound_def explicit_bounds_def dict_get_def given_def)
  show ?thesis
  proof (cases "tw = []")
    case True
    then show ?thesis using empty by (simp add: apply_time_window_def)
  next
    case False
    then show ?thesis
      unfolding explicit_bounds_def from_eq to_eq
      by (simp add: apply_time_window_def Let_def relative_bound_def period_days_tag_days
          split: option.splits)
  qed
qed

lemma given_not_truthy: "\<not> truthy v \<Longrightarrow> given v = []"
  by (cases v) (simp_all add: given_def)

lemma no_bounds:
  assumes "\<not> truthy (dict_get tw ''period'')"
    and "\<not> truthy (dict_get tw ''from_date'')" and "\<not> truthy (dict_get tw ''from'')"
    and "\<not> truthy (dict_get tw ''to_date'')" and "\<not> truthy (dict_get tw ''to'')"
  shows "relative_bound ymd_days_ago tw @ explicit_bounds tw = []"
proof -
  have "relative_bound ymd_days_ago tw = []"
    using assms(1) by (cases "dict_get tw ''period''") (simp_all add: relative_bound_def)
  moreover have "explicit_bounds tw = []"
    using assms(2-5) by (simp add: explicit_bounds_def given_not_truthy)
  ultimately show ?thesis by simp
qed

text \<open>
  Claim C4: the time window resolver extends the predicate it is given by the bounds
  of the window, each one a comparison of column \<open>timestamp\<close>: first the relative bound
  \<open>timestamp >= now - N days\<close> of a period tag (\<open>N\<close> = 7, 30, 90 for the three tags, 30 for
  any other tag), then the explicit lower and upper bounds, which are added to the
  relative bound and do not replace it. Without a window, and with a window that has
  neither a period nor a date, the predicate is returned unchanged.
\<close>

theorem apply_time_window_bounds:
  "apply_time_window ymd_days_ago base_where None = (base_where, [])
   \<and> apply_time_window ymd_days_ago base_where (Some tw) =
       (base_where
          @ concat (map render_bound (relative_bound ymd_days_ago tw @ explicit_bounds tw)),
        [])
   \<and> (\<not> truthy (dict_get tw ''period'')
        \<and> \<not> truthy (dict_get tw ''from_date'') \<and> \<not> truthy (dict_get tw ''from'')
        \<and> \<not> truthy (dict_get tw ''to_date'') \<and> \<not> truthy (dict_get tw ''to'')
      \<longrightarrow> apply_time_window ymd_days_ago base_where (Some tw) = (base_where, []))"
proof (intro conjI impI)
  show "apply_time_window ymd_days_ago base_where None = (base_where, [])"
    by (simp add: apply_time_window_def)
  show "apply_time_window ymd_days_ago base_where (Some tw) =
       (base_where
          @ concat (map render_bound (relative_bound ymd_days_ago tw @ explicit_bounds tw)),
        [])"
    by (rule apply_time_window_Some)
next
  assume "\<not> truthy (dict_get tw ''period'')
        \<and> \<not> truthy (dict_get tw ''from_date'') \<and> \<not> truthy (dict_get tw ''from'')
        \<and> \<not> truthy (dict_get tw ''to_date'') \<and> \<not> truthy (dict_get tw ''to'')"
  then have "relative_bound ymd_days_ago tw @ explicit_bounds tw = []"
    using no_bounds [of tw ymd_days_ago] by blast
  then show "apply_time_window ymd_days_ago base_where (Some tw) = (base_where, [])"
    by (simp only: apply_time_window_Some) simp
qed

theorem apply_time_window_bounds_witness:
  "apply_time_window example_days_ago ''device = ?''
     (Some [(''period'', Some ''last_week''), (''from'', Some ''2025-03-10''),
            (''to'', Some ''2025-03-20'')])
   = (''device = ? AND timestamp >= '2025-03-02' AND timestamp >= '2025-03-10' AND timestamp <= '2025-03-20'' @ SQ,
      [])
   \<and> apply_time_window example_days_ago ''device = ?''
     (Some [(''period'', None), (''from'', None), (''to'', None)]) = (''device = ?'', [])"
  using apply_time_window_bounds [of example_days_ago "''device = ?''"
      "[(''period'', Some ''last_week''), (''from'', Some ''2025-03-10''),
            (''to'', Some ''2025-03-20'')]"]
    apply_time_window_bounds [of example_days_ago "''device = ?''"
      "[(''period'', None), (''from'', None), (''to'', None)]"]
  by (simp add: relative_bound_def explicit_bounds_def dict_get_def given_def tag_days_def
      example_days_ago_def)

subsection \<open>Failure results\<close>

lemma in_set_dropWhile: "c \<in> set s \<Longrightarrow> \<not> P c \<Longrightarrow> c \<in> set (dropWhile P s)"
  by (induction s) auto

lemma strip_not_empty:
  assumes "c \<in> set s" and "\<not> is_space c"
  shows "strip s \<noteq> []"
proof -
  have "c \<in> set (rev (dropWhile is_space s))"
    using assms by (simp add: in_set_dropWhile)
  then have "c \<in> set (dropWhile is_space (rev (dropWhile is_space s)))"
    using assms(2) by (rule in_set_dropWhile)
  then have "dropWhile is_space (rev (dropWhile is_space s)) \<noteq> []"
    by (metis empty_iff list.set(1))
  then show ?thesis by (simp add: strip_def)
qed

lemma S_not_space: "\<not> is_space CHR ''S''"
  by (simp add: is_space_def)

lemma strip_failure_rate_query [simp]: "strip (failure_rate_query w) \<noteq> []"
  by (rule strip_not_empty [OF _ S_not_space]) (simp add: failure_rate_query_def)

lemma strip_executive_summary_query [simp]: "strip (executive_summary_query w) \<noteq> []"
  by (rule strip_not_empty [OF _ S_not_space]) (simp add: executive_summary_query_def)

lemma strip_top_failure_codes_query [simp]: "strip (top_failure_codes_query w n) \<noteq> []"
  by (rule strip_not_empty [OF _ S_not_space]) (simp add: top_failure_codes_query_def)

lemma strip_aggregate_grouped_query [simp]: "strip (aggregate_grouped_query g e m w) \<noteq> []"
  by (rule strip_not_empty [OF _ S_not_space]) (simp add: aggregate_grouped_query_def)

lemma strip_aggregate_query [simp]: "strip (aggregate_query e m w) \<noteq> []"
  by (rule strip_not_empty [OF _ S_not_space]) (simp add: aggregate_query_def)

lemma strip_compare_query [simp]: "strip (compare_query e m w a b) \<noteq> []"
  by (rule strip_not_empty [OF _ S_not_space]) (simp add: compare_query_def)

lemma strip_time_series_grouped_query [simp]:
  "strip (time_series_grouped_query t g e m w) \<noteq> []"
  by (rule strip_not_empty [OF _ S_not_space]) (simp add: time_series_grouped_query_def)

lemma strip_time_series_query [simp]: "strip (time_series_query t e m w) \<noteq> []"
  by (rule strip_not_empty [OF _ S_not_space]) (simp add: time_series_query_def)

lemma failure_shape_failed_result [simp]: "q \<noteq> [] \<Longrightarrow> failure_shape (failed_result m q e)"
  by (simp add: failure_shape_def failed_result_def)

lemma failure_shape_success [simp]: "success r \<Longrightarrow> failure_shape r"
  by (simp add: failure_shape_def)

lemma compute_failure_rate_shape:
  "failure_shape (compute_failure_rate ymd conn filters time_window)"
  by (simp add: compute_failure_rate_def Let_def split: option.splits prod.splits sum.splits)

lemma get_executive_summary_shape:
  "failure_shape (get_executive_summary ymd conn time_window)"
  by (simp add: get_executive_summary_def Let_def split: option.splits prod.splits sum.splits)

lemma get_top_failure_codes_shape:
  "failure_shape (get_top_failure_codes ymd conn filters time_window limit)"
  by (simp add: get_top_failure_codes_def Let_def split: option.splits prod.splits sum.splits)

lemma aggregate_shape:
  "failure_shape (aggregate ymd conn m cols filters time_window)"
  by (simp add: aggregate_def Let_def split: option.splits prod.splits sum.splits)

lemma compare_segments_shape:
  "failure_shape (compare_segments ymd conn a b m filters time_window)"
  by (simp add: compare_segments_def Let_def split: option.splits prod.splits sum.splits)

lemma time_series_shape:
  "failure_shape (time_series ymd conn m time_col period filters time_window group_by)"
  by (simp add: time_series_def Let_def split: option.splits prod.splits sum.splits)

text \<open>
  Claim C6: no analysis operation raises past its boundary. Each of the six operations
  is a total function to \<open>AnalysisResult\<close> in which every exception of the source is a
  returned value, and whenever the result is not a success, its \<open>error\<close> is populated,
  its \<open>numbers\<close> are empty and its query text is populated.
\<close>

theorem operations_never_raise:
  "(\<not> success (compute_failure_rate ymd conn filters tw) \<longrightarrow>
      error (compute_failure_rate ymd conn filters tw) \<noteq> None
      \<and> numbers (compute_failure_rate ymd conn filters tw) = []
      \<and> query_executed (compute_failure_rate ymd conn filters tw) \<noteq> [])
   \<and> (\<not> success (aggregate ymd conn m cols filters tw) \<longrightarrow>
      error (aggregate ymd conn m cols filters tw) \<noteq> None
      \<and> numbers (aggregate ymd conn m cols filters tw) = []
      \<and> query_executed (aggregate ymd conn m cols filters tw) \<noteq> [])
   \<and> (\<not> success (compare_segments ymd conn seg_a seg_b m filters tw) \<longrightarrow>
      error (compare_segments ymd conn seg_a seg_b m filters tw) \<noteq> None
      \<and> numbers (compare_segments ymd conn seg_a seg_b m filters tw) = []
      \<and> query_executed (compare_segments ymd conn seg_a seg_b m filters tw) \<noteq> [])
   \<and> (\<not> success (time_series ymd conn m time_col period filters tw group_by) \<longrightarrow>
      error (time_series ymd conn m time_col period filters tw group_by) \<noteq> None
      \<and> numbers (time_series ymd conn m time_col period filters tw group_by) = []
      \<and> query_executed (time_series ymd conn m time_col period filters tw group_by) \<noteq> [])
   \<and> (\<not> success (get_top_failure_codes ymd conn filters tw limit) \<longrightarrow>
      error (get_top_failure_codes ymd conn filters tw limit) \<noteq> None
      \<and> numbers (get_top_failure_codes ymd conn filters tw limit) = []
      \<and> query_executed (get_top_failure_codes ymd conn filters tw limit) \<noteq> [])
   \<and> (\<not> success (get_executive_summary ymd conn tw) \<longrightarrow>
      error (get_executive_summary ymd conn tw) \<noteq> None
      \<and> numbers (get_executive_summary ymd conn tw) = []
      \<and> query_executed (get_executive_summary ymd conn tw) \<noteq> [])"
  using compute_failure_rate_shape [of ymd conn filters tw]
    aggregate_shape [of ymd conn m cols filters tw]
    compare_segments_shape [of ymd conn seg_a seg_b m filters tw]
    time_series_shape [of ymd conn m time_col period filters tw group_by]
    get_top_failure_codes_shape [of ymd conn filters tw limit]
    get_executive_summary_shape [of ymd conn tw]
  unfolding failure_shape_def by blast

theorem operations_never_raise_witness:
  "error (compute_failure_rate example_days_ago None None None) = Some ''Dataset not loaded''
   \<and> numbers (compute_failure_rate example_days_ago None None None) = []
   \<and> query_executed (compute_failure_rate example_days_ago None None None) = ''N/A''
   \<and> error (get_executive_summary example_days_ago (Some (example_engine [])) None)
       = Some ''unsupported format string passed to NoneType.__format__''
   \<and> numbers (get_executive_summary example_days_ago (Some (example_engine [])) None) = []
   \<and> query_executed (get_executive_summary example_days_ago (Some (example_engine [])) None)
       \<noteq> []"
proof -
  let ?r = "compute_failure_rate example_days_ago None None None"
  let ?s = "get_executive_summary example_days_ago (Some (example_engine [])) None"
  have r: "?r = failed_result ''failure_rate'' ''N/A'' ''Dataset not loaded''"
    by (simp add: compute_failure_rate_def)
  have "raises (example_engine []) (executive_summary_query ''1=1'') = None"
    by (simp add: example_engine_def executive_summary_query_def table_name_def)
  then have s: "?s = failed_result ''executive_summary'' (strip (executive_summary_query ''1=1''))
      ''unsupported format string passed to NoneType.__format__''"
    by (simp add: get_executive_summary_def apply_time_window_def execute_def Let_def
        rows_where_def round_sum_amount_def example_engine_def)
  have "\<not> success ?r" and "\<not> success ?s"
    by (simp_all add: r s failed_result_def)
  then have "numbers ?r = [] \<and> numbers ?s = [] \<and> query_executed ?s \<noteq> []"
    using operations_never_raise
      [where ymd = example_days_ago and conn = None and filters = None and tw = None]
      operations_never_raise
      [where ymd = example_days_ago and conn = "Some (example_engine [])" and tw = None]
    by blast
  then show ?thesis by (simp add: r s failed_result_def)
qed

subsection \<open>Segment comparison\<close>

lemma floor_rat_numeral_div [simp]:
  "\<lfloor>(numeral a :: rat) / numeral b\<rfloor> = numeral a div numeral b"
  using floor_divide_of_int_eq [of "numeral a" "numeral b", where ?'a = rat] by simp

lemma floor_rat_one_div [simp]: "\<lfloor>(1 :: rat) / numeral b\<rfloor> = 1 div numeral b"
  using floor_divide_of_int_eq [of 1 "numeral b", where ?'a = rat] by simp

lemma snd_apply_time_window [simp]: "snd (apply_time_window ymd w tw) = []"
  by (cases tw) (simp_all add: apply_time_window_def Let_def)

lemma execute_Inr: "execute db q a = Inr b \<longleftrightarrow> raises db q = None \<and> b = a"
  by (auto simp: execute_def split: option.splits)

lemma execute_Inl: "execute db q a = Inl e \<longleftrightarrow> raises db q = Some e"
  by (auto simp: execute_def split: option.splits)

lemma case_execute:
  "(case execute db q a of Inl e \<Rightarrow> f e | Inr x \<Rightarrow> g x)
     = (case raises db q of Some e \<Rightarrow> f e | None \<Rightarrow> g a)"
  by (simp add: execute_def split: option.splits)

lemma py_float_cases: "py_float v = NaN \<or> (\<exists>q. py_float v = FloatV q)"
  by (cases v) simp_all

lemma py_sub_float: "py_sub (py_float a) (py_float b) = signed_difference (py_float a) (py_float b)"
  by (cases a; cases b) (simp_all add: signed_difference_def)

lemma pct_diff_float:
  "(if nonzero (py_float b)
    then py_mul (py_div (py_sub (py_float a) (py_float b)) (py_float b)) (IntV 100)
    else IntV 0) = percentage_difference (py_float a) (py_float b)"
  by (cases a; cases b) (simp_all add: percentage_difference_def)

lemma compare_segments_success:
  assumes "success (compare_segments ymd conn seg_a seg_b m filters tw)"
  shows "\<exists>db. conn = Some db
    \<and> raises db (compare_query (metric_expr_get metric_expr_map_compare m) m
          (resolved_predicate ymd filters tw) (seg_conds seg_a) (seg_conds seg_b)) = None"
  using assms
  by (cases conn)
     (auto simp: compare_segments_def failed_result_def Let_def case_prod_beta
        resolved_predicate_def case_execute split: option.splits)

lemma compare_segments_numbers_raw:
  assumes "raises db (compare_query (metric_expr_get metric_expr_map_compare m) m
          (resolved_predicate ymd filters tw) (seg_conds seg_a) (seg_conds seg_b)) = None"
  shows "numbers (compare_segments ymd (Some db) seg_a seg_b m filters tw) =
     (let e = metric_expr_get metric_expr_map_compare m;
          w = resolved_predicate ymd filters tw;
          rows_a = segment_rows db w (seg_conds seg_a);
          rows_b = segment_rows db w (seg_conds seg_b);
          val_a = py_float (agg_sem e rows_a);
          val_b = py_float (agg_sem e rows_b)
      in [\<lparr>label = metric_title m @ '' ('' @ seg_label seg_a @ '')'',
           value_text = format_metric_value m val_a,
           raw_value = Some val_a,
           calculation = Some
             \<lparr>numerator = None, denominator = None, formula = None,
              sample_size = Some (int (length rows_a))\<rparr>\<rparr>,
          \<lparr>label = metric_title m @ '' ('' @ seg_label seg_b @ '')'',
           value_text = format_metric_value m val_b,
           raw_value = Some val_b,
           calculation = Some
             \<lparr>numerator = None, denominator = None, formula = None,
              sample_size = Some (int (length rows_b))\<rparr>\<rparr>,
          \<lparr>label = ''Difference'',
           value_text = [Fmt ''+.2f'' (Some (signed_difference val_a val_b)), Lit '' ('',
                         Fmt ''+.1f'' (Some (percentage_difference val_a val_b)), Lit ''%)''],
           raw_value = Some (signed_difference val_a val_b),
           calculation = None\<rparr>])"
  using assms
  by (simp add: compare_segments_def Let_def case_prod_beta resolved_predicate_def
      case_execute segment_select_def py_sub_float pct_diff_float)


text \<open>
  Claim C5: a successful segment comparison returns three numbers: the metric's value
  over segment A with the segment's row count as sample size, the same for segment B,
  and a difference whose raw value is the signed difference \<open>A - B\<close> and whose text shows
  that difference and the percentage difference with B's value as the denominator; the
  percentage difference is zero when B's value is zero.
\<close>

theorem compare_segments_three_numbers:
  assumes "success (compare_segments ymd (Some db) seg_a seg_b m filters tw)"
  shows "numbers (compare_segments ymd (Some db) seg_a seg_b m filters tw) =
     (let e = metric_expr_get metric_expr_map_compare m;
          w = resolved_predicate ymd filters tw;
          rows_a = segment_rows db w (seg_conds seg_a);
          rows_b = segment_rows db w (seg_conds seg_b);
          val_a = py_float (agg_sem e rows_a);
          val_b = py_float (agg_sem e rows_b)
      in [\<lparr>label = metric_title m @ '' ('' @ seg_label seg_a @ '')'',
           value_text = format_metric_value m val_a,
           raw_value = Some val_a,
           calculation = Some
             \<lparr>numerator = None, denominator = None, formula = None,
              sample_size = Some (int (length rows_a))\<rparr>\<rparr>,
          \<lparr>label = metric_title m @ '' ('' @ seg_label seg_b @ '')'',
           value_text = format_metric_value m val_b,
           raw_value = Some val_b,
           calculation = Some
             \<lparr>numerator = None, denominator = None, formula = None,
              sample_size = Some (int (length rows_b))\<rparr>\<rparr>,
          \<lparr>label = ''Difference'',
           value_text = [Fmt ''+.2f'' (Some (signed_difference val_a val_b)), Lit '' ('',
                         Fmt ''+.1f'' (Some (percentage_difference val_a val_b)), Lit ''%)''],
           raw_value = Some (signed_difference val_a val_b),
           calculation = None\<rparr>])"
  using compare_segments_success [OF assms] compare_segments_numbers_raw by simp

lemma where_sem_example:
  "where_sem (example_engine rows) w r = list_all (\<lambda>c. condition_sem c r) (conjuncts_from [] w)"
  by (simp add: example_engine_def)

lemma raises_example:
  "raises (example_engine rows) q = (if CHR ''?'' \<in> set q then Some unbound_parameter_error else None)"
  by (simp add: example_engine_def)

lemma tbl_example: "tbl (example_engine rows) = rows"
  by (simp add: example_engine_def)

theorem compare_segments_three_numbers_witness:
  "map raw_value (numbers (compare_segments example_days_ago (Some (example_engine two_devices))
      [(''device'', ''Android'')] [(''device'', ''iOS'')] ''failure_rate'' None None))
     = [Some (FloatV 100), Some (FloatV 0), Some (FloatV 100)]
   \<and> map value_text (numbers (compare_segments example_days_ago (Some (example_engine two_devices))
      [(''device'', ''Android'')] [(''device'', ''iOS'')] ''failure_rate'' None None)) ! 2
     = [Fmt ''+.2f'' (Some (FloatV 100)), Lit '' ('', Fmt ''+.1f'' (Some (IntV 0)), Lit ''%)'']"
proof -
  let ?db = "example_engine two_devices"
  let ?r = "compare_segments example_days_ago (Some ?db)
      [(''device'', ''Android'')] [(''device'', ''iOS'')] ''failure_rate'' None None"
  have e: "metric_expr_get metric_expr_map_compare ''failure_rate'' = failure_rate_expr"
    by (simp add: metric_expr_get_def metric_expr_map_compare_def lower_def lower_char_def)
  have w: "resolved_predicate example_days_ago None None = ''1=1''"
    by (simp add: resolved_predicate_def apply_time_window_def build_where_clause_def
        or_default_filters_def PrimaryFilters_default_def filter_map_def)
  have ok: "success ?r"
    by (simp add: compare_segments_def case_prod_beta Let_def case_execute raises_example
        compare_query_def e failure_rate_expr_def table_name_def seg_conds_def
        apply_time_window_def build_where_clause_def or_default_filters_def
        PrimaryFilters_default_def filter_map_def)
  have a: "segment_rows ?db ''1=1'' (seg_conds [(''device'', ''Android'')])
      = [txn ''t1'' ''2025-01-01'' ''Android'' ''Failed'' (Some ''TIMEOUT'')]"
    by (simp add: segment_rows_def where_sem_example tbl_example two_devices_def seg_conds_def
        condition_sem_def quoted_def column_def txn_def)
  have b: "segment_rows ?db ''1=1'' (seg_conds [(''device'', ''iOS'')])
      = [txn ''t2'' ''2025-01-02'' ''iOS'' ''Success'' None]"
    by (simp add: segment_rows_def where_sem_example tbl_example two_devices_def seg_conds_def
        condition_sem_def quoted_def column_def txn_def)
  have va: "agg_sem failure_rate_expr [txn ''t1'' ''2025-01-01'' ''Android'' ''Failed'' (Some ''TIMEOUT'')]
      = FloatV 100"
    by (simp add: agg_sem_def failure_rate_expr_def count_expr_def avg_amount_expr_def
        total_amount_expr_def nan_if_null_def rate_pct_def is_failed_def txn_def sql_round_def)
  have vb: "agg_sem failure_rate_expr [txn ''t2'' ''2025-01-02'' ''iOS'' ''Success'' None]
      = FloatV 0"
    by (simp add: agg_sem_def failure_rate_expr_def count_expr_def avg_amount_expr_def
        total_amount_expr_def nan_if_null_def rate_pct_def is_failed_def txn_def sql_round_def)
  show ?thesis
    using compare_segments_three_numbers [OF ok]
    by (simp add: e w a b va vb Let_def signed_difference_def percentage_difference_def)
qed

subsection \<open>Failure rate\<close>

lemma sql_round_nonneg: "0 \<le> x \<Longrightarrow> 0 \<le> sql_round x d"
  by (simp add: sql_round_def)

lemma sql_round_le:
  assumes "0 \<le> x" and "x \<le> of_int n"
  shows "sql_round x d \<le> of_int n"
proof -
  have "x * 10 ^ d \<le> of_int n * 10 ^ d"
    using assms(2) by (simp add: mult_right_mono)
  then have "x * 10 ^ d + 1 / 2 < of_int n * 10 ^ d + 1"
    by linarith
  moreover have "(of_int (n * 10 ^ d) :: rat) = of_int n * 10 ^ d"
    by simp
  ultimately have "x * 10 ^ d + 1 / 2 < of_int (n * 10 ^ d) + 1"
    by (simp only:)
  then have "\<lfloor>x * 10 ^ d + 1 / 2\<rfloor> \<le> n * 10 ^ d"
    by (simp only: floor_le_iff)
  then have "(of_int \<lfloor>x * 10 ^ d + 1 / 2\<rfloor> :: rat) \<le> of_int (n * 10 ^ d)"
    by (simp only: of_int_le_iff)
  then have "(of_int \<lfloor>x * 10 ^ d + 1 / 2\<rfloor> :: rat) / 10 ^ d \<le> of_int n"
    by (simp add: pos_divide_le_eq)
  with assms(1) show ?thesis by (simp add: sql_round_def)
qed

lemma rate_pct_range:
  assumes "rate_pct c d rs = Some q"
  shows "0 \<le> q \<and> q \<le> 100"
proof -
  from assms have ne: "rs \<noteq> []"
    and q: "q = sql_round (100 * of_nat (length (filter c rs)) / of_nat (length rs)) d"
    by (auto simp: rate_pct_def split: if_splits)
  let ?x = "100 * of_nat (length (filter c rs)) / of_nat (length rs) :: rat"
  have "length (filter c rs) \<le> length rs" by simp
  then have "(of_nat (length (filter c rs)) :: rat) \<le> of_nat (length rs)"
    by (simp only: of_nat_le_iff)
  moreover have "(0 :: rat) < of_nat (length rs)" using ne by simp
  ultimately have "?x \<le> 100"
    by (simp add: pos_divide_le_eq)
  moreover have "0 \<le> ?x" by simp
  ultimately have "0 \<le> sql_round ?x d \<and> sql_round ?x d \<le> of_int 100"
    using sql_round_nonneg [of ?x d] sql_round_le [of ?x 100 d] by simp
  then show ?thesis by (simp add: q)
qed

lemma sum_failed_count:
  "(case sum_failed rs of None \<Rightarrow> 0 | Some n \<Rightarrow> n) = int (length (filter is_failed rs))"
  by (simp add: sum_failed_def)

text \<open>
  When \<open>compute_failure_rate\<close> succeeds, its first number is the failure rate of the rows
  that the executed predicate selects: a value in [0, 100], zero when no row is
  selected, with the count of failed rows as numerator and the count of selected rows
  as denominator.
\<close>

lemma compute_failure_rate_success:
  assumes "success (compute_failure_rate ymd (Some db) filters tw)"
  shows "\<exists>rate text.
     hd (numbers (compute_failure_rate ymd (Some db) filters tw)) =
       \<lparr>label = ''Failure Rate'', value_text = text, raw_value = Some (FloatV rate),
        calculation = Some
          \<lparr>numerator = Some (IntV (int (length (filter is_failed
               (rows_where db (resolved_predicate ymd filters tw)))))),
           denominator = Some (IntV (int (length
               (rows_where db (resolved_predicate ymd filters tw))))),
           formula = Some ''(failed_transactions / total_transactions) * 100'',
           sample_size = None\<rparr>\<rparr>
     \<and> 0 \<le> rate \<and> rate \<le> 100
     \<and> (rows_where db (resolved_predicate ymd filters tw) = [] \<longrightarrow> rate = 0)"
proof -
  let ?rs = "rows_where db (resolved_predicate ymd filters tw)"
  let ?rate = "case rate_pct is_failed 2 ?rs of None \<Rightarrow> 0 | Some q \<Rightarrow> q"
  have range: "0 \<le> ?rate \<and> ?rate \<le> 100"
    using rate_pct_range [of is_failed 2 ?rs] by (cases "rate_pct is_failed 2 ?rs") simp_all
  have zero: "?rs = [] \<longrightarrow> ?rate = 0"
    by (simp add: rate_pct_def)
  have "hd (numbers (compute_failure_rate ymd (Some db) filters tw)) =
       \<lparr>label = ''Failure Rate'', value_text = [Fmt [] (Some (FloatV ?rate)), Lit ''%''],
        raw_value = Some (FloatV ?rate),
        calculation = Some
          \<lparr>numerator = Some (IntV (int (length (filter is_failed ?rs)))),
           denominator = Some (IntV (int (length ?rs))),
           formula = Some ''(failed_transactions / total_transactions) * 100'',
           sample_size = None\<rparr>\<rparr>"
    using assms
    by (simp add: compute_failure_rate_def Let_def case_prod_beta case_execute
        resolved_predicate_def failed_result_def sum_failed_count split: option.splits)
  with range zero show ?thesis by blast
qed

text \<open>A hundred rows, ten of them failed, no filter: 10.0 with provenance 10 / 100.\<close>

lemma compute_failure_rate_hundred_rows:
  "map raw_value (numbers
      (compute_failure_rate example_days_ago (Some (example_engine hundred_rows)) None None))
     = [Some (FloatV 10), Some (IntV 100), Some (IntV 10)]
   \<and> map calculation (numbers
      (compute_failure_rate example_days_ago (Some (example_engine hundred_rows)) None None))
     = [Some \<lparr>numerator = Some (IntV 10), denominator = Some (IntV 100),
               formula = Some ''(failed_transactions / total_transactions) * 100'',
               sample_size = None\<rparr>, None, None]"
proof -
  have w: "resolved_predicate example_days_ago None None = ''1=1''"
    by (simp add: resolved_predicate_def apply_time_window_def build_where_clause_def
        or_default_filters_def PrimaryFilters_default_def filter_map_def)
  have rs: "rows_where (example_engine hundred_rows) ''1=1'' = hundred_rows"
    by (simp add: rows_where_def where_sem_example tbl_example condition_sem_def)
  have q1: "raises (example_engine hundred_rows) (failure_rate_query ''1=1'') = None"
    by (simp add: raises_example failure_rate_query_def table_name_def)
  have q2: "raises (example_engine hundred_rows) (sample_query ''1=1'') = None"
    by (simp add: raises_example sample_query_def table_name_def)
  have failed: "length (filter is_failed hundred_rows) = 10"
    by (simp add: hundred_rows_def is_failed_def txn_def)
  have total: "length hundred_rows = 100"
    by (simp add: hundred_rows_def)
  have ne: "hundred_rows \<noteq> []"
    using total by auto
  have rate: "rate_pct is_failed 2 hundred_rows = Some 10"
    by (simp add: rate_pct_def ne failed total sql_round_def)
  show ?thesis
    using w
    by (simp add: compute_failure_rate_def Let_def case_prod_beta case_execute
        resolved_predicate_def rs q1 q2 rate sum_failed_def ne failed total)
qed

text \<open>
  Claim C2 says that \<open>compute_failure_rate\<close> returns, for every filter set and time
  window, a failure rate in [0, 100] with the counts of the matching rows as provenance.
  The predicate of a set filter is \<open>column = ?\<close>, and the bound values that the
  predicate builder returns never reach the engine (\<open>execute\<close> gets the query text
  only). So on every engine the result is the same for device \<open>Android\<close> and device
  \<open>iOS\<close>, and on an engine that refuses a text with an unbound parameter the result is a
  failure with no number.
\<close>

theorem compute_failure_rate_drops_bound_values:
  "compute_failure_rate ymd (Some db) (Some android_only) tw
     = compute_failure_rate ymd (Some db) (Some ios_only) tw
   \<and> compute_failure_rate example_days_ago (Some (example_engine two_devices))
       (Some android_only) None
     = failed_result ''failure_rate'' (strip (failure_rate_query ''device = ?''))
         unbound_parameter_error"
proof
  have "build_where_clause android_only = (''device = ?'', [''Android''])"
    and "build_where_clause ios_only = (''device = ?'', [''iOS''])"
    by (simp_all add: build_where_clause_def filter_map_def android_only_def ios_only_def
        PrimaryFilters_default_def)
  then show "compute_failure_rate ymd (Some db) (Some android_only) tw
     = compute_failure_rate ymd (Some db) (Some ios_only) tw"
    by (simp add: compute_failure_rate_def or_default_filters_def)
next
  have w: "resolved_predicate example_days_ago (Some android_only) None = ''device = ?''"
    by (simp add: resolved_predicate_def apply_time_window_def build_where_clause_def
        or_default_filters_def PrimaryFilters_default_def filter_map_def android_only_def)
  have "raises (example_engine two_devices) (failure_rate_query ''device = ?'')
      = Some unbound_parameter_error"
    by (simp add: raises_example failure_rate_query_def)
  with w show "compute_failure_rate example_days_ago (Some (example_engine two_devices))
       (Some android_only) None
     = failed_result ''failure_rate'' (strip (failure_rate_query ''device = ?''))
         unbound_parameter_error"
    by (simp add: compute_failure_rate_def Let_def case_prod_beta case_execute
        resolved_predicate_def)
qed

subsection \<open>Metric names without an expression\<close>

lemma metric_expr_get_unregistered:
  "lower m \<notin> fst ` set M \<Longrightarrow> metric_expr_get M m = ''COUNT(*)''"
  by (simp add: metric_expr_get_def map_of_eq_None_iff [THEN iffD2])

lemma agg_sem_count [simp]: "agg_sem ''COUNT(*)'' rs = IntV (int (length rs))"
  by (simp add: agg_sem_def count_expr_def)

lemma float_or_zero_IntV [simp]: "float_or_zero (IntV n) = FloatV (of_int n)"
  by (simp add: float_or_zero_def)

lemma aggregate_unregistered:
  assumes "lower m \<notin> fst ` set metric_expr_map_aggregate"
  shows "success (aggregate ymd (Some db) m None filters tw)
       \<longleftrightarrow> raises db (aggregate_query ''COUNT(*)'' m (resolved_predicate ymd filters tw)) = None"
    and "success (aggregate ymd (Some db) m None filters tw) \<Longrightarrow>
       map raw_value (numbers (aggregate ymd (Some db) m None filters tw))
         = [Some (FloatV (of_nat (length (rows_where db (resolved_predicate ymd filters tw)))))]"
  using metric_expr_get_unregistered [OF assms]
  by (auto simp: aggregate_def Let_def case_prod_beta case_execute resolved_predicate_def
      failed_result_def split: option.splits)

lemma grouped_rows_count:
  "g \<in> set (grouped_rows db cols ''COUNT(*)'' rs) \<Longrightarrow>
     \<exists>k. g = (k, IntV (int (length (filter (\<lambda>r. group_key db cols r = k) rs))))"
  by (auto simp: grouped_rows_def)

lemma aggregate_grouped_unregistered:
  assumes "lower m \<notin> fst ` set metric_expr_map_aggregate" and "cols \<noteq> []"
  shows "success (aggregate ymd (Some db) m (Some cols) filters tw)
       \<longleftrightarrow> raises db (aggregate_grouped_query (join '', '' cols) ''COUNT(*)'' m
             (resolved_predicate ymd filters tw)) = None"
    and "success (aggregate ymd (Some db) m (Some cols) filters tw) \<Longrightarrow>
       n \<in> set (numbers (aggregate ymd (Some db) m (Some cols) filters tw)) \<Longrightarrow>
       \<exists>k. raw_value n = Some (FloatV (of_nat (length (filter (\<lambda>r. group_key db cols r = k)
              (rows_where db (resolved_predicate ymd filters tw))))))"
proof -
  note e = metric_expr_get_unregistered [OF assms(1)]
  show "success (aggregate ymd (Some db) m (Some cols) filters tw)
       \<longleftrightarrow> raises db (aggregate_grouped_query (join '', '' cols) ''COUNT(*)'' m
             (resolved_predicate ymd filters tw)) = None"
    using e assms(2)
    by (auto simp: aggregate_def Let_def case_prod_beta case_execute resolved_predicate_def
        failed_result_def split: option.splits)
  assume ok: "success (aggregate ymd (Some db) m (Some cols) filters tw)"
    and n: "n \<in> set (numbers (aggregate ymd (Some db) m (Some cols) filters tw))"
  let ?rs = "rows_where db (resolved_predicate ymd filters tw)"
  from ok n e assms(2) have "n \<in> group_number m ` set (aggregate_grouped_select db cols ''COUNT(*)'' ?rs)"
    by (auto simp: aggregate_def Let_def case_prod_beta case_execute resolved_predicate_def
        failed_result_def split: option.splits)
  then obtain g where g: "g \<in> set (aggregate_grouped_select db cols ''COUNT(*)'' ?rs)"
    and ng: "n = group_number m g" by blast
  from g have "g \<in> set (grouped_rows db cols ''COUNT(*)'' ?rs)"
    by (auto simp: aggregate_grouped_select_def dest: in_set_takeD)
  then obtain k where "g = (k, IntV (int (length (filter (\<lambda>r. group_key db cols r = k) ?rs))))"
    using grouped_rows_count by blast
  with ng show "\<exists>k. raw_value n = Some (FloatV (of_nat (length (filter (\<lambda>r. group_key db cols r = k) ?rs))))"
    by (auto simp: group_number_def)
qed

lemma compare_unregistered:
  assumes "lower m \<notin> fst ` set metric_expr_map_compare"
  shows "success (compare_segments ymd (Some db) seg_a seg_b m filters tw)
       \<longleftrightarrow> raises db (compare_query ''COUNT(*)'' m (resolved_predicate ymd filters tw)
             (seg_conds seg_a) (seg_conds seg_b)) = None"
    and "success (compare_segments ymd (Some db) seg_a seg_b m filters tw) \<Longrightarrow>
       map raw_value (numbers (compare_segments ymd (Some db) seg_a seg_b m filters tw))
         = [Some (FloatV (of_nat (length
               (segment_rows db (resolved_predicate ymd filters tw) (seg_conds seg_a))))),
            Some (FloatV (of_nat (length
               (segment_rows db (resolved_predicate ymd filters tw) (seg_conds seg_b))))),
            Some (FloatV (of_nat (length
               (segment_rows db (resolved_predicate ymd filters tw) (seg_conds seg_a)))
              - of_nat (length
               (segment_rows db (resolved_predicate ymd filters tw) (seg_conds seg_b)))))]"
  using metric_expr_get_unregistered [OF assms]
  by (auto simp: compare_segments_def Let_def case_prod_beta case_execute resolved_predicate_def
      failed_result_def segment_select_def split: option.splits)

lemma bucket_rows_count:
  "b \<in> set (bucket_rows db te g ''COUNT(*)'' rs) \<Longrightarrow>
     \<exists>k. b = (fst k, snd k, IntV (int (length (filter (\<lambda>r. bucket_key db te g r = k) rs))))"
  by (auto simp: bucket_rows_def)

lemma time_series_unregistered:
  assumes "lower m \<notin> fst ` set metric_expr_map_time_series"
  shows "success (time_series ymd (Some db) m time_col period filters tw group_by)
       \<longleftrightarrow> raises db (time_series_text (time_expr_of period time_col) group_by ''COUNT(*)'' m
             (resolved_predicate ymd filters tw)) = None"
    and "success (time_series ymd (Some db) m time_col period filters tw group_by) \<Longrightarrow>
       n \<in> set (numbers (time_series ymd (Some db) m time_col period filters tw group_by)) \<Longrightarrow>
       \<exists>k. raw_value n = Some (FloatV (of_nat (length
              (filter (\<lambda>r. bucket_key db (time_expr_of period time_col)
                               (if truthy group_by then group_by else None) r = k)
                 (rows_where db (resolved_predicate ymd filters tw))))))"
proof -
  note e = metric_expr_get_unregistered [OF assms(1)]
  let ?g = "if truthy group_by then group_by else None"
  let ?te = "time_expr_of period time_col"
  let ?rs = "rows_where db (resolved_predicate ymd filters tw)"
  show "success (time_series ymd (Some db) m time_col period filters tw group_by)
       \<longleftrightarrow> raises db (time_series_text (time_expr_of period time_col) group_by ''COUNT(*)'' m
             (resolved_predicate ymd filters tw)) = None"
    using e
    by (auto simp: time_series_def Let_def case_prod_beta case_execute resolved_predicate_def
        failed_result_def time_series_text_def split: option.splits)
  assume ok: "success (time_series ymd (Some db) m time_col period filters tw group_by)"
    and n: "n \<in> set (numbers (time_series ymd (Some db) m time_col period filters tw group_by))"
  from ok n e have "n \<in> set (take 20 (map (bucket_number m)
        (time_series_select db ?te ?g ''COUNT(*)'' ?rs)))"
    by (auto simp: time_series_def Let_def case_prod_beta case_execute resolved_predicate_def
        failed_result_def split: option.splits)
  then have "n \<in> bucket_number m ` set (time_series_select db ?te ?g ''COUNT(*)'' ?rs)"
    by (auto dest: in_set_takeD)
  then obtain b where b: "b \<in> set (bucket_rows db ?te ?g ''COUNT(*)'' ?rs)"
    and nb: "n = bucket_number m b"
    by (auto simp: time_series_select_def)
  obtain k where "b = (fst k, snd k, IntV (int (length (filter (\<lambda>r. bucket_key db ?te ?g r = k) ?rs))))"
    using bucket_rows_count [OF b] by blast
  with nb have "raw_value n = Some (FloatV (of_nat (length
              (filter (\<lambda>r. bucket_key db ?te ?g r = k) ?rs))))"
    by (simp add: bucket_number_def)
  then show "\<exists>k. raw_value n = Some (FloatV (of_nat (length
              (filter (\<lambda>r. bucket_key db ?te ?g r = k) ?rs))))"
    by (rule exI)
qed

text \<open>
  Claim C9: for a metric name that is not a key of an operation's expression map (the
  guard accepts the names \<open>fraud_rate\<close> and \<open>review_rate\<close>, which are in no map),
  \<open>aggregate\<close>, \<open>compare_segments\<close> and \<open>time_series\<close> take \<open>COUNT(*)\<close> as the metric's
  expression. The name is not rejected: the operation succeeds exactly when the engine
  does not raise on the query text with \<open>COUNT(*)\<close>, and then every value it reports is a
  count of rows (of the selected rows, of a segment, of a group or of a bucket).
\<close>

theorem unregistered_metric_counts_rows:
  "(lower m \<notin> fst ` set metric_expr_map_aggregate \<longrightarrow>
      metric_expr_get metric_expr_map_aggregate m = ''COUNT(*)''
      \<and> (success (aggregate ymd (Some db) m None filters tw)
           \<longleftrightarrow> raises db (aggregate_query ''COUNT(*)'' m
                 (resolved_predicate ymd filters tw)) = None)
      \<and> (success (aggregate ymd (Some db) m None filters tw) \<longrightarrow>
           map raw_value (numbers (aggregate ymd (Some db) m None filters tw))
             = [Some (FloatV (of_nat (length
                  (rows_where db (resolved_predicate ymd filters tw)))))])
      \<and> (cols \<noteq> [] \<longrightarrow>
           (success (aggregate ymd (Some db) m (Some cols) filters tw)
             \<longleftrightarrow> raises db (aggregate_grouped_query (join '', '' cols) ''COUNT(*)'' m
                   (resolved_predicate ymd filters tw)) = None)
           \<and> (success (aggregate ymd (Some db) m (Some cols) filters tw) \<longrightarrow>
                (\<forall>n \<in> set (numbers (aggregate ymd (Some db) m (Some cols) filters tw)).
                   \<exists>k. raw_value n = Some (FloatV (of_nat (length
                          (filter (\<lambda>r. group_key db cols r = k)
                             (rows_where db (resolved_predicate ymd filters tw))))))))))
   \<and> (lower m \<notin> fst ` set metric_expr_map_compare \<longrightarrow>
      metric_expr_get metric_expr_map_compare m = ''COUNT(*)''
      \<and> (success (compare_segments ymd (Some db) seg_a seg_b m filters tw)
           \<longleftrightarrow> raises db (compare_query ''COUNT(*)'' m (resolved_predicate ymd filters tw)
                 (seg_conds seg_a) (seg_conds seg_b)) = None)
      \<and> (success (compare_segments ymd (Some db) seg_a seg_b m filters tw) \<longrightarrow>
           map raw_value (numbers (compare_segments ymd (Some db) seg_a seg_b m filters tw))
             = [Some (FloatV (of_nat (length
                   (segment_rows db (resolved_predicate ymd filters tw) (seg_conds seg_a))))),
                Some (FloatV (of_nat (length
                   (segment_rows db (resolved_predicate ymd filters tw) (seg_conds seg_b))))),
                Some (FloatV (of_nat (length
                   (segment_rows db (resolved_predicate ymd filters tw) (seg_conds seg_a)))
                  - of_nat (length
                   (segment_rows db (resolved_predicate ymd filters tw) (seg_conds seg_b)))))]))
   \<and> (lower m \<notin> fst ` set metric_expr_map_time_series \<longrightarrow>
      metric_expr_get metric_expr_map_time_series m = ''COUNT(*)''
      \<and> (success (time_series ymd (Some db) m time_col period filters tw group_by)
           \<longleftrightarrow> raises db (time_series_text (time_expr_of period time_col) group_by
                 ''COUNT(*)'' m (resolved_predicate ymd filters tw)) = None)
      \<and> (success (time_series ymd (Some db) m time_col period filters tw group_by) \<longrightarrow>
           (\<forall>n \<in> set (numbers
                 (time_series ymd (Some db) m time_col period filters tw group_by)).
              \<exists>k. raw_value n = Some (FloatV (of_nat (length
                     (filter (\<lambda>r. bucket_key db (time_expr_of period time_col)
                                      (if truthy group_by then group_by else None) r = k)
                        (rows_where db (resolved_predicate ymd filters tw)))))))))"
proof (intro conjI impI ballI)
  assume a: "lower m \<notin> fst ` set metric_expr_map_aggregate"
  show "metric_expr_get metric_expr_map_aggregate m = ''COUNT(*)''"
    by (rule metric_expr_get_unregistered [OF a])
  show "success (aggregate ymd (Some db) m None filters tw)
           \<longleftrightarrow> raises db (aggregate_query ''COUNT(*)'' m
                 (resolved_predicate ymd filters tw)) = None"
    by (rule aggregate_unregistered(1) [OF a])
  show "map raw_value (numbers (aggregate ymd (Some db) m None filters tw))
             = [Some (FloatV (of_nat (length
                  (rows_where db (resolved_predicate ymd filters tw)))))]"
    if "success (aggregate ymd (Some db) m None filters tw)"
    by (rule aggregate_unregistered(2) [OF a that])
  show "success (aggregate ymd (Some db) m (Some cols) filters tw)
             \<longleftrightarrow> raises db (aggregate_grouped_query (join '', '' cols) ''COUNT(*)'' m
                   (resolved_predicate ymd filters tw)) = None"
    if "cols \<noteq> []"
    by (rule aggregate_grouped_unregistered(1) [OF a that])
  show "\<exists>k. raw_value n = Some (FloatV (of_nat (length
                          (filter (\<lambda>r. group_key db cols r = k)
                             (rows_where db (resolved_predicate ymd filters tw))))))"
    if "cols \<noteq> []" and "success (aggregate ymd (Some db) m (Some cols) filters tw)"
      and "n \<in> set (numbers (aggregate ymd (Some db) m (Some cols) filters tw))" for n
    by (rule aggregate_grouped_unregistered(2) [OF a that])
next
  assume c: "lower m \<notin> fst ` set metric_expr_map_compare"
  show "metric_expr_get metric_expr_map_compare m = ''COUNT(*)''"
    by (rule metric_expr_get_unregistered [OF c])
  show "success (compare_segments ymd (Some db) seg_a seg_b m filters tw)
           \<longleftrightarrow> raises db (compare_query ''COUNT(*)'' m (resolved_predicate ymd filters tw)
                 (seg_conds seg_a) (seg_conds seg_b)) = None"
    by (rule compare_unregistered(1) [OF c])
  show "map raw_value (numbers (compare_segments ymd (Some db) seg_a seg_b m filters tw))
             = [Some (FloatV (of_nat (length
                   (segment_rows db (resolved_predicate ymd filters tw) (seg_conds seg_a))))),
                Some (FloatV (of_nat (length
                   (segment_rows db (resolved_predicate ymd filters tw) (seg_conds seg_b))))),
                Some (FloatV (of_nat (length
                   (segment_rows db (resolved_predicate ymd filters tw) (seg_conds seg_a)))
                  - of_nat (length
                   (segment_rows db (resolved_predicate ymd filters tw) (seg_conds seg_b)))))]"
    if "success (compare_segments ymd (Some db) seg_a seg_b m filters tw)"
    by (rule compare_unregistered(2) [OF c that])
next
  assume t: "lower m \<notin> fst ` set metric_expr_map_time_series"
  show "metric_expr_get metric_expr_map_time_series m = ''COUNT(*)''"
    by (rule metric_expr_get_unregistered [OF t])
  show "success (time_series ymd (Some db) m time_col period filters tw group_by)
           \<longleftrightarrow> raises db (time_series_text (time_expr_of period time_col) group_by
                 ''COUNT(*)'' m (resolved_predicate ymd filters tw)) = None"
    by (rule time_series_unregistered(1) [OF t])
  show "\<exists>k. raw_value n = Some (FloatV (of_nat (length
                     (filter (\<lambda>r. bucket_key db (time_expr_of period time_col)
                                      (if truthy group_by then group_by else None) r = k)
                        (rows_where db (resolved_predicate ymd filters tw))))))"
    if "success (time_series ymd (Some db) m time_col period filters tw group_by)"
      and "n \<in> set (numbers
                 (time_series ymd (Some db) m time_col period filters tw group_by))" for n
    by (rule time_series_unregistered(2) [OF t that])
qed

theorem unregistered_metric_counts_rows_witness:
  "success (aggregate example_days_ago (Some (example_engine two_devices))
       ''fraud_rate'' None None None)
   \<and> map raw_value (numbers (aggregate example_days_ago (Some (example_engine two_devices))
       ''fraud_rate'' None None None)) = [Some (FloatV 2)]
   \<and> success (compare_segments example_days_ago (Some (example_engine two_devices))
       [(''device'', ''Android'')] [(''device'', ''iOS'')] ''review_rate'' None None)
   \<and> map raw_value (numbers (compare_segments example_days_ago
       (Some (example_engine two_devices))
       [(''device'', ''Android'')] [(''device'', ''iOS'')] ''review_rate'' None None))
     = [Some (FloatV 1), Some (FloatV 1), Some (FloatV 0)]
   \<and> success (time_series example_days_ago (Some (example_engine two_devices))
       ''fraud_rate'' ''date_only'' ''day'' None None None)"
proof -
  let ?db = "example_engine two_devices"
  note inst = unregistered_metric_counts_rows
    [where db = ?db and ymd = example_days_ago and filters = None and tw = None
       and seg_a = "[(''device'', ''Android'')]" and seg_b = "[(''device'', ''iOS'')]"
       and time_col = "''date_only''" and period = "''day''" and group_by = None]
  have w: "resolved_predicate example_days_ago None None = ''1=1''"
    by (simp add: resolved_predicate_def apply_time_window_def build_where_clause_def
        or_default_filters_def PrimaryFilters_default_def filter_map_def)
  have fraud: "lower ''fraud_rate'' \<notin> fst ` set metric_expr_map_aggregate"
    "lower ''fraud_rate'' \<notin> fst ` set metric_expr_map_time_series"
    by (simp_all add: lower_def lower_char_def metric_expr_map_aggregate_def
        metric_expr_map_time_series_def)
  have review: "lower ''review_rate'' \<notin> fst ` set metric_expr_map_compare"
    by (simp add: lower_def lower_char_def metric_expr_map_compare_def)
  have q1: "raises ?db (aggregate_query ''COUNT(*)'' ''fraud_rate'' ''1=1'') = None"
    by (simp add: raises_example aggregate_query_def table_name_def)
  have q2: "raises ?db (compare_query ''COUNT(*)'' ''review_rate'' ''1=1''
        (seg_conds [(''device'', ''Android'')]) (seg_conds [(''device'', ''iOS'')])) = None"
    by (simp add: raises_example compare_query_def table_name_def seg_conds_def)
  have q3: "raises ?db (time_series_text (time_expr_of ''day'' ''date_only'') None
        ''COUNT(*)'' ''fraud_rate'' ''1=1'') = None"
    by (simp add: raises_example time_series_text_def time_series_query_def table_name_def
        time_expr_of_def)
  have rs: "rows_where ?db ''1=1'' = two_devices"
    by (simp add: rows_where_def where_sem_example tbl_example condition_sem_def)
  have a: "segment_rows ?db ''1=1'' (seg_conds [(''device'', ''Android'')])
      = [txn ''t1'' ''2025-01-01'' ''Android'' ''Failed'' (Some ''TIMEOUT'')]"
    by (simp add: segment_rows_def where_sem_example tbl_example two_devices_def seg_conds_def
        condition_sem_def quoted_def column_def txn_def)
  have b: "segment_rows ?db ''1=1'' (seg_conds [(''device'', ''iOS'')])
      = [txn ''t2'' ''2025-01-02'' ''iOS'' ''Success'' None]"
    by (simp add: segment_rows_def where_sem_example tbl_example two_devices_def seg_conds_def
        condition_sem_def quoted_def column_def txn_def)
  have len: "length two_devices = 2"
    by (simp add: two_devices_def)
  have agg: "success (aggregate example_days_ago (Some ?db) ''fraud_rate'' None None None)"
    using inst [where m = "''fraud_rate''", THEN conjunct1] fraud(1) q1 by (simp add: w)
  then have agg_n: "map raw_value (numbers (aggregate example_days_ago (Some ?db)
       ''fraud_rate'' None None None)) = [Some (FloatV 2)]"
    using inst [where m = "''fraud_rate''", THEN conjunct1] fraud(1) by (simp add: w rs len)
  have cmp: "success (compare_segments example_days_ago (Some ?db)
       [(''device'', ''Android'')] [(''device'', ''iOS'')] ''review_rate'' None None)"
    using inst [where m = "''review_rate''", THEN conjunct2, THEN conjunct1] review q2
    by (simp add: w)
  then have cmp_n: "map raw_value (numbers (compare_segments example_days_ago (Some ?db)
       [(''device'', ''Android'')] [(''device'', ''iOS'')] ''review_rate'' None None))
     = [Some (FloatV 1), Some (FloatV 1), Some (FloatV 0)]"
    using inst [where m = "''review_rate''", THEN conjunct2, THEN conjunct1] review
    by (simp add: w a b)
  have ts: "success (time_series example_days_ago (Some ?db)
       ''fraud_rate'' ''date_only'' ''day'' None None None)"
    using inst [where m = "''fraud_rate''", THEN conjunct2, THEN conjunct2] fraud(2) q3
    by (simp add: w)
  from agg agg_n cmp cmp_n ts show ?thesis by blast
qed

subsection \<open>Chart series\<close>

lemma length_bucket_rows:
  "length (bucket_rows db te g e rs) = length (remdups (map (bucket_key db te g) rs))"
  by (simp add: bucket_rows_def)

lemma length_time_series_select:
  "length (time_series_select db te g e rs) = length (remdups (map (bucket_key db te g) rs))"
  by (simp add: time_series_select_def length_bucket_rows)

lemma time_series_unfold:
  "time_series ymd (Some db) m time_col period filters tw group_by =
     (let w = resolved_predicate ymd filters tw;
          te = time_expr_of period time_col;
          e = metric_expr_get metric_expr_map_time_series m;
          g = (if truthy group_by then group_by else None);
          q = time_series_text te group_by e m w;
          df = time_series_select db te g e (rows_where db w)
      in case raises db q of
           Some err \<Rightarrow> failed_result m (strip q) err
         | None \<Rightarrow>
             \<lparr>success = True, result_metric = m,
              numbers = take 20 (map (bucket_number m) df),
              query_executed = strip q, sample_rows = None,
              chart_data = Some
                \<lparr>chart_type = LINE, title_text = Some (metric_title m @ '' over Time''),
                 x_label = Some ''Date'', y_label = Some (metric_title m),
                 points = map bucket_point df, series_name = None\<rparr>,
              error = None\<rparr>)"
  by (simp add: time_series_def Let_def case_prod_beta case_execute resolved_predicate_def
      time_series_text_def)

lemma time_series_points:
  assumes "success (time_series ymd (Some db) m time_col period filters tw group_by)"
  shows "chart_points (time_series ymd (Some db) m time_col period filters tw group_by)
       = Some (length (remdups (map (bucket_key db (time_expr_of period time_col)
                  (if truthy group_by then group_by else None))
             (rows_where db (resolved_predicate ymd filters tw)))))"
    and "length (numbers (time_series ymd (Some db) m time_col period filters tw group_by))
       = min 20 (length (remdups (map (bucket_key db (time_expr_of period time_col)
                  (if truthy group_by then group_by else None))
             (rows_where db (resolved_predicate ymd filters tw)))))"
  using assms
  by (simp_all add: time_series_unfold Let_def failed_result_def chart_points_def
      length_time_series_select min.commute split: option.splits)

lemma aggregate_points:
  assumes "success (aggregate ymd (Some db) m cols filters tw)"
  shows "chart_points (aggregate ymd (Some db) m cols filters tw) = None
     \<or> (\<exists>n. chart_points (aggregate ymd (Some db) m cols filters tw) = Some n \<and> n \<le> 20)"
  using assms
  by (auto simp: aggregate_def Let_def case_prod_beta case_execute resolved_predicate_def
      failed_result_def chart_points_def aggregate_grouped_select_def split: option.splits if_splits)

lemma compare_points:
  assumes "success (compare_segments ymd (Some db) seg_a seg_b m filters tw)"
  shows "chart_points (compare_segments ymd (Some db) seg_a seg_b m filters tw) = Some 2"
  using assms
  by (auto simp: compare_segments_def Let_def case_prod_beta case_execute
      failed_result_def chart_points_def split: option.splits)

lemma top_codes_points:
  assumes "success (get_top_failure_codes ymd (Some db) filters tw limit)"
  shows "\<exists>n. chart_points (get_top_failure_codes ymd (Some db) filters tw limit) = Some n
     \<and> n \<le> nat limit"
  using assms
  by (auto simp: get_top_failure_codes_def Let_def case_prod_beta case_execute
      failed_result_def chart_points_def top_codes_def split: option.splits)

lemma no_chart:
  "chart_points (compute_failure_rate ymd conn filters tw) = None"
  "chart_points (get_executive_summary ymd conn tw) = None"
  by (auto simp: compute_failure_rate_def get_executive_summary_def Let_def case_prod_beta
      case_execute failed_result_def chart_points_def split: option.splits)

lemma resolved_predicate_none:
  "resolved_predicate ymd None None = ''1=1''"
  by (simp add: resolved_predicate_def apply_time_window_def build_where_clause_def
      or_default_filters_def PrimaryFilters_default_def filter_map_def)

lemma rows_where_example_all: "rows_where (example_engine rows) ''1=1'' = rows"
  by (simp add: rows_where_def where_sem_example tbl_example condition_sem_def)

lemma time_series_day_ok:
  "success (time_series ymd (Some (example_engine rows)) ''volume'' ''date_only'' ''day''
      None None None)"
  by (simp add: time_series_unfold Let_def resolved_predicate_none raises_example
      time_series_text_def time_series_query_def time_expr_of_def table_name_def
      metric_expr_get_def metric_expr_map_time_series_def count_expr_def lower_def
      lower_char_def)

lemma bucket_key_day:
  "bucket_key (example_engine rows) ''date_only'' None = (\<lambda>r. (date_only r, None))"
  by (simp add: bucket_key_def example_engine_def column_def fun_eq_iff)

text \<open>
  Claim C7 says that every chart series has at most 20 points. The time-series
  operation caps its numbers at 20 (\<open>numbers[:20]\<close>) and leaves the chart series as it
  is: a dataset with 21 days gives a chart series of 21 points.
\<close>

theorem time_series_chart_exceeds_cap:
  "chart_points (time_series example_days_ago (Some (example_engine twenty_one_days))
      ''volume'' ''date_only'' ''day'' None None None) = Some 21
   \<and> (20 :: nat) < 21"
proof -
  have "length (remdups (map (\<lambda>r. (date_only r, None :: string option)) twenty_one_days)) = 21"
    by (simp add: twenty_one_days_def txn_def)
  then show ?thesis
    using time_series_points(1) [OF time_series_day_ok [of example_days_ago twenty_one_days]]
    by (simp add: resolved_predicate_none rows_where_example_all time_expr_of_def
        bucket_key_day)
qed

text \<open>
  Claim C7, amended: the chart series of a successful time series has one point per
  (bucket, group) combination of the selected rows, with no cap, and only its numbers
  are capped at 20. The chart series of a grouped aggregation has at most 20 points,
  that of a segment comparison has 2, that of the top-N breakdown at most N; the
  single-metric and summary operations have no chart series.
\<close>

theorem chart_series_sizes:
  "(success (time_series ymd (Some db) m time_col period filters tw group_by) \<longrightarrow>
      chart_points (time_series ymd (Some db) m time_col period filters tw group_by)
        = Some (length (remdups (map (bucket_key db (time_expr_of period time_col)
                   (if truthy group_by then group_by else None))
              (rows_where db (resolved_predicate ymd filters tw)))))
      \<and> length (numbers (time_series ymd (Some db) m time_col period filters tw group_by))
        = min 20 (length (remdups (map (bucket_key db (time_expr_of period time_col)
                   (if truthy group_by then group_by else None))
              (rows_where db (resolved_predicate ymd filters tw))))))
   \<and> (success (aggregate ymd (Some db) m cols filters tw) \<longrightarrow>
      chart_points (aggregate ymd (Some db) m cols filters tw) = None
      \<or> (\<exists>n. chart_points (aggregate ymd (Some db) m cols filters tw) = Some n \<and> n \<le> 20))
   \<and> (success (compare_segments ymd (Some db) seg_a seg_b m filters tw) \<longrightarrow>
      chart_points (compare_segments ymd (Some db) seg_a seg_b m filters tw) = Some 2)
   \<and> (success (get_top_failure_codes ymd (Some db) filters tw limit) \<longrightarrow>
      (\<exists>n. chart_points (get_top_failure_codes ymd (Some db) filters tw limit) = Some n
         \<and> n \<le> nat limit))
   \<and> chart_points (compute_failure_rate ymd conn filters tw) = None
   \<and> chart_points (get_executive_summary ymd conn tw) = None"
  using time_series_points [of ymd db m time_col period filters tw group_by]
    aggregate_points [of ymd db m cols filters tw]
    compare_points [of ymd db seg_a seg_b m filters tw]
    top_codes_points [of ymd db filters tw limit]
    no_chart(1) [of ymd conn filters tw] no_chart(2) [of ymd conn tw]
  by blast

theorem chart_series_sizes_witness:
  "chart_points (time_series example_days_ago (Some (example_engine two_devices))
      ''volume'' ''date_only'' ''day'' None None None) = Some 2
   \<and> length (numbers (time_series example_days_ago (Some (example_engine two_devices))
      ''volume'' ''date_only'' ''day'' None None None)) = 2"
proof -
  have "length (remdups (map (\<lambda>r. (date_only r, None :: string option)) two_devices)) = 2"
    by (simp add: two_devices_def txn_def)
  then show ?thesis
    using chart_series_sizes [where ymd = example_days_ago
        and db = "example_engine two_devices" and m = "''volume''"
        and time_col = "''date_only''" and period = "''day''" and filters = None
        and tw = None and group_by = None, THEN conjunct1]
      time_series_day_ok [of example_days_ago two_devices]
    by (simp add: resolved_predicate_none rows_where_example_all time_expr_of_def
        bucket_key_day)
qed

subsection \<open>Top failure codes\<close>

lemma sql_round_error:
  assumes "0 \<le> x"
  shows "\<bar>sql_round x d - x\<bar> \<le> 1 / (2 * 10 ^ d)"
proof -
  let ?y = "x * 10 ^ d"
  let ?f = "of_int \<lfloor>?y + 1 / 2\<rfloor> :: rat"
  have "?f \<le> ?y + 1 / 2" by (rule of_int_floor_le)
  moreover have "?y + 1 / 2 < ?f + 1"
    using floor_correct [of "?y + 1 / 2"] by simp
  ultimately have "\<bar>?f - ?y\<bar> \<le> 1 / 2" by linarith
  then have "\<bar>?f - ?y\<bar> / 10 ^ d \<le> (1 / 2) / 10 ^ d"
    by (rule divide_right_mono) simp
  moreover have "\<bar>?f - ?y\<bar> / 10 ^ d = \<bar>?f / 10 ^ d - x\<bar>"
  proof -
    have "(?f - ?y) / 10 ^ d = ?f / 10 ^ d - x"
      by (simp add: diff_divide_distrib)
    then have "\<bar>?f / 10 ^ d - x\<bar> = \<bar>(?f - ?y) / 10 ^ d\<bar>"
      by (simp only:)
    also have "\<dots> = \<bar>?f - ?y\<bar> / \<bar>10 ^ d\<bar>"
      by (rule abs_divide)
    finally show ?thesis by simp
  qed
  ultimately show ?thesis using assms by (simp add: sql_round_def)
qed

lemma count_list_map_filter:
  "count_list (map f rs) c = length (filter (\<lambda>r. f r = c) rs)"
  by (induction rs) simp_all

lemma sum_code_counts:
  "sum_list (map (code_count rs) (remdups (map failure_code rs))) = length rs"
proof -
  let ?ys = "map failure_code rs"
  have "sum_list (map (code_count rs) (remdups ?ys)) = sum (code_count rs) (set (remdups ?ys))"
    by (rule sum_list_distinct_conv_sum_set) simp
  also have "\<dots> = sum (count_list ?ys) (set ?ys)"
    by (simp add: code_count_def count_list_map_filter)
  also have "\<dots> = length ?ys"
    by (rule sum_count_set) simp_all
  finally show ?thesis by simp
qed

lemma sum_list_shares:
  "sum_list (map (\<lambda>c. 100 * of_int (int (f c)) / (L :: rat)) cs)
     = 100 * of_nat (sum_list (map f cs)) / L"
  by (induction cs) (simp_all add: add_divide_distrib distrib_left)

lemma sum_list_insort_key:
  "sum_list (map g (insort_key k x xs)) = g x + sum_list (map (g :: 'a \<Rightarrow> rat) xs)"
  by (induction xs) simp_all

lemma sum_list_sort_key:
  "sum_list (map g (sort_key k xs)) = sum_list (map (g :: 'a \<Rightarrow> rat) xs)"
  by (induction xs) (simp_all add: sum_list_insort_key)

lemma sum_list_take_le:
  "(\<And>x. x \<in> set xs \<Longrightarrow> 0 \<le> g x) \<Longrightarrow>
     sum_list (map g (take n xs)) \<le> sum_list (map (g :: 'a \<Rightarrow> rat) xs)"
proof (induction xs arbitrary: n)
  case Nil
  then show ?case by simp
next
  case (Cons x xs)
  show ?case
  proof (cases n)
    case 0
    have "0 \<le> g x" using Cons.prems by simp
    moreover have "0 \<le> sum_list (map g xs)"
      using Cons.prems by (intro sum_list_nonneg) auto
    ultimately show ?thesis using 0 by simp
  next
    case (Suc k)
    then show ?thesis using Cons.IH [of k] Cons.prems by simp
  qed
qed

lemma sum_list_le_plus:
  "(\<And>x. x \<in> set xs \<Longrightarrow> f x \<le> g x + c) \<Longrightarrow>
     sum_list (map f xs) \<le> sum_list (map g xs) + of_nat (length xs) * (c :: rat)"
proof (induction xs)
  case Nil
  then show ?case by simp
next
  case (Cons x xs)
  have "f x \<le> g x + c" using Cons.prems by simp
  moreover have "sum_list (map f xs) \<le> sum_list (map g xs) + of_nat (length xs) * c"
    using Cons by simp
  ultimately show ?case by (simp add: algebra_simps)
qed

lemma sum_list_ge_minus:
  "(\<And>x. x \<in> set xs \<Longrightarrow> g x - c \<le> f x) \<Longrightarrow>
     sum_list (map g xs) - of_nat (length xs) * (c :: rat) \<le> sum_list (map f xs)"
proof (induction xs)
  case Nil
  then show ?case by simp
next
  case (Cons x xs)
  have "g x - c \<le> f x" using Cons.prems by simp
  moreover have "sum_list (map g xs) - of_nat (length xs) * c \<le> sum_list (map f xs)"
    using Cons by simp
  ultimately show ?case by (simp add: algebra_simps)
qed

lemma code_groups_alt:
  "code_groups rs =
     map (\<lambda>c. (code_label c, int (code_count rs c),
                sql_round (exact_share rs (int (code_count rs c))) 2))
       (remdups (map failure_code rs))"
  by (simp add: code_groups_def code_label_def exact_share_def)

lemma top_codes_subset: "set (top_codes rs limit) \<subseteq> set (code_groups rs)"
  by (auto simp: top_codes_def dest: in_set_takeD)

lemma top_codes_element:
  assumes "g \<in> set (top_codes rs limit)"
  shows "\<exists>c \<in> set (map failure_code rs).
     g = (code_label c, int (code_count rs c),
          sql_round (exact_share rs (int (code_count rs c))) 2)
     \<and> 0 < code_count rs c"
proof -
  from assms top_codes_subset have "g \<in> set (code_groups rs)" by blast
  then obtain c where c: "c \<in> set (map failure_code rs)"
    and g: "g = (code_label c, int (code_count rs c),
          sql_round (exact_share rs (int (code_count rs c))) 2)"
    by (auto simp: code_groups_alt)
  from c have "0 < code_count rs c"
    by (auto simp: code_count_def filter_empty_conv)
  with c g show ?thesis by blast
qed

lemma exact_share_nonneg: "0 \<le> n \<Longrightarrow> 0 \<le> exact_share rs n"
  by (simp add: exact_share_def)

lemma top_codes_rounded:
  assumes "g \<in> set (top_codes rs limit)"
  shows "\<bar>snd (snd g) - exact_share rs (fst (snd g))\<bar> \<le> 1 / 200"
proof -
  obtain c where "g = (code_label c, int (code_count rs c),
          sql_round (exact_share rs (int (code_count rs c))) 2)"
    using top_codes_element [OF assms] by blast
  then show ?thesis
    using sql_round_error [of "exact_share rs (int (code_count rs c))" 2]
    by (simp add: exact_share_nonneg)
qed

lemma top_codes_sorted:
  "sorted_wrt (\<lambda>g h. fst (snd h) \<le> fst (snd g)) (top_codes rs limit)"
proof -
  let ?k = "\<lambda>(code :: string, n :: int, pct :: rat). - n"
  have "sorted (map ?k (sort_key ?k (code_groups rs)))"
    by (rule sorted_sort_key)
  then have "sorted_wrt (\<lambda>g h. ?k g \<le> ?k h) (sort_key ?k (code_groups rs))"
    by (simp add: sorted_map)
  then have "sorted_wrt (\<lambda>g h. ?k g \<le> ?k h) (top_codes rs limit)"
    unfolding top_codes_def by (rule sorted_wrt_take)
  then show ?thesis
    by (rule sorted_wrt_mono_rel [rotated]) (auto simp: case_prod_beta)
qed

lemma code_groups_exact_sum:
  "sum_list (map (\<lambda>g. exact_share rs (fst (snd g))) (code_groups rs))
     = (if rs = [] then 0 else 100)"
proof -
  have "sum_list (map (\<lambda>g. exact_share rs (fst (snd g))) (code_groups rs))
      = sum_list (map (\<lambda>c. 100 * of_int (int (code_count rs c)) / of_nat (length rs))
          (remdups (map failure_code rs)))"
    by (simp add: code_groups_alt exact_share_def o_def)
  also have "\<dots> = 100 * of_nat (length rs) / of_nat (length rs)"
    by (simp only: sum_list_shares sum_code_counts)
  finally show ?thesis by simp
qed

lemma top_codes_exact_sum_le:
  "sum_list (map (\<lambda>g. exact_share rs (fst (snd g))) (top_codes rs limit)) \<le> 100"
proof -
  let ?k = "\<lambda>(code :: string, n :: int, pct :: rat). - n"
  let ?g = "\<lambda>g :: string \<times> int \<times> rat. exact_share rs (fst (snd g))"
  have "sum_list (map ?g (top_codes rs limit)) \<le> sum_list (map ?g (sort_key ?k (code_groups rs)))"
    unfolding top_codes_def
  proof (rule sum_list_take_le)
    fix x assume "x \<in> set (sort_key ?k (code_groups rs))"
    then show "0 \<le> exact_share rs (fst (snd x))"
      by (auto simp: code_groups_alt exact_share_nonneg)
  qed
  also have "\<dots> = sum_list (map ?g (code_groups rs))"
    by (rule sum_list_sort_key)
  also have "\<dots> \<le> 100"
    by (simp add: code_groups_exact_sum)
  finally show ?thesis .
qed

lemma top_codes_exact_sum_all:
  assumes "rs \<noteq> []" and "length (remdups (map failure_code rs)) \<le> nat limit"
  shows "sum_list (map (\<lambda>g. exact_share rs (fst (snd g))) (top_codes rs limit)) = 100"
proof -
  let ?k = "\<lambda>(code :: string, n :: int, pct :: rat). - n"
  have "length (sort_key ?k (code_groups rs)) \<le> nat limit"
    using assms(2) by (simp add: code_groups_def)
  then have "top_codes rs limit = sort_key ?k (code_groups rs)"
    by (simp add: top_codes_def)
  then show ?thesis
    using assms(1) by (simp add: sum_list_sort_key code_groups_exact_sum)
qed

lemma top_codes_shown_sum:
  "\<bar>sum_list (map (\<lambda>g. snd (snd g)) (top_codes rs limit))
      - sum_list (map (\<lambda>g. exact_share rs (fst (snd g))) (top_codes rs limit))\<bar>
     \<le> of_nat (length (top_codes rs limit)) / 200"
proof -
  let ?xs = "top_codes rs limit"
  let ?f = "\<lambda>g :: string \<times> int \<times> rat. snd (snd g)"
  let ?g = "\<lambda>g :: string \<times> int \<times> rat. exact_share rs (fst (snd g))"
  have up: "sum_list (map ?f ?xs) \<le> sum_list (map ?g ?xs) + of_nat (length ?xs) * (1 / 200)"
  proof (rule sum_list_le_plus)
    fix x assume "x \<in> set ?xs"
    then show "?f x \<le> ?g x + 1 / 200"
      using top_codes_rounded [of x rs limit] by linarith
  qed
  have low: "sum_list (map ?g ?xs) - of_nat (length ?xs) * (1 / 200) \<le> sum_list (map ?f ?xs)"
  proof (rule sum_list_ge_minus)
    fix x assume "x \<in> set ?xs"
    then show "?g x - 1 / 200 \<le> ?f x"
      using top_codes_rounded [of x rs limit] by linarith
  qed
  from up low show ?thesis by linarith
qed

lemma get_top_failure_codes_unfold:
  "get_top_failure_codes ymd (Some db) filters tw limit =
     (let w = resolved_predicate ymd filters tw;
          q = top_failure_codes_query w limit;
          df = top_codes (failed_rows db w) limit
      in case raises db q of
           Some err \<Rightarrow> failed_result ''failure_codes'' (strip q) err
         | None \<Rightarrow>
             \<lparr>success = True, result_metric = ''failure_codes'',
              numbers = map code_number df,
              query_executed = strip q, sample_rows = None,
              chart_data = Some
                \<lparr>chart_type = BAR, title_text = Some ''Top Failure Codes'',
                 x_label = None, y_label = None, points = map code_point df,
                 series_name = None\<rparr>,
              error = None\<rparr>)"
  by (simp add: get_top_failure_codes_def Let_def case_prod_beta case_execute
      resolved_predicate_def failed_rows_def)

lemma str_int_10: "str_int 10 = ''10''"
  by (simp add: str_int_def digits.simps [of 10] digits.simps [of "Suc 0"])

lemma top_codes_ok:
  "success (get_top_failure_codes ymd (Some (example_engine rows)) None None 10)"
  by (simp add: get_top_failure_codes_unfold Let_def resolved_predicate_none raises_example
      top_failure_codes_query_def table_name_def str_int_10)

text \<open>
  Claim C8, amended: a successful top-N breakdown is computed from the failed rows
  only; it returns at most N numbers, one per failure code, in descending order of
  count, with \<open>NULL\<close> shown as \<open>Unknown\<close>; each number carries the count and the
  percentage of all failures, rounded to two decimals. The exact percentages sum to at
  most 100, and to 100 when N is not smaller than the number of distinct codes (and
  there is a failure); the sum of the returned, rounded percentages differs from the
  exact sum by at most 0.005 per returned row, so it can exceed 100.
\<close>

theorem top_failure_codes_breakdown:
  assumes "success (get_top_failure_codes ymd (Some db) filters tw limit)"
  shows "let rs = failed_rows db (resolved_predicate ymd filters tw);
             df = top_codes rs limit
         in numbers (get_top_failure_codes ymd (Some db) filters tw limit) = map code_number df
            \<and> length (numbers (get_top_failure_codes ymd (Some db) filters tw limit)) \<le> nat limit
            \<and> (\<forall>x \<in> set rs. row_status x = ''Failed'')
            \<and> sorted_wrt (\<lambda>g h. fst (snd h) \<le> fst (snd g)) df
            \<and> (\<forall>g \<in> set df. \<exists>c \<in> set (map failure_code rs).
                  g = (code_label c, int (code_count rs c),
                       sql_round (exact_share rs (int (code_count rs c))) 2))
            \<and> sum_list (map (\<lambda>g. exact_share rs (fst (snd g))) df) \<le> 100
            \<and> \<bar>sum_list (map (\<lambda>g. snd (snd g)) df)
                 - sum_list (map (\<lambda>g. exact_share rs (fst (snd g))) df)\<bar>
                \<le> of_nat (length df) / 200
            \<and> (rs \<noteq> [] \<and> length (remdups (map failure_code rs)) \<le> nat limit
                 \<longrightarrow> sum_list (map (\<lambda>g. exact_share rs (fst (snd g))) df) = 100)"
proof -
  let ?rs = "failed_rows db (resolved_predicate ymd filters tw)"
  let ?df = "top_codes ?rs limit"
  have n: "numbers (get_top_failure_codes ymd (Some db) filters tw limit) = map code_number ?df"
    using assms
    by (simp add: get_top_failure_codes_unfold Let_def failed_result_def split: option.splits)
  have len: "length ?df \<le> nat limit"
    by (simp add: top_codes_def)
  have failed: "\<forall>x \<in> set ?rs. row_status x = ''Failed''"
    by (simp add: failed_rows_def is_failed_def)
  have elems: "\<forall>g \<in> set ?df. \<exists>c \<in> set (map failure_code ?rs).
                  g = (code_label c, int (code_count ?rs c),
                       sql_round (exact_share ?rs (int (code_count ?rs c))) 2)"
    using top_codes_element [of _ ?rs limit] by blast
  have all: "?rs \<noteq> [] \<and> length (remdups (map failure_code ?rs)) \<le> nat limit
      \<longrightarrow> sum_list (map (\<lambda>g. exact_share ?rs (fst (snd g))) ?df) = 100"
    using top_codes_exact_sum_all [of ?rs limit] by blast
  show ?thesis
    unfolding Let_def
    using n len failed elems all top_codes_sorted [of ?rs limit]
      top_codes_exact_sum_le [of ?rs limit] top_codes_shown_sum [of ?rs limit]
    by simp
qed

lemma top_codes_six:
  "top_codes six_codes 10 =
     [(''TIMEOUT'', 1, 1667 / 100), (''NETWORK_ERROR'', 1, 1667 / 100),
      (''BANK_DECLINED'', 1, 1667 / 100), (''INSUFFICIENT_FUNDS'', 1, 1667 / 100),
      (''INVALID_PIN'', 1, 1667 / 100), (''LIMIT_EXCEEDED'', 1, 1667 / 100)]"
  by (simp add: top_codes_def code_groups_def code_count_def six_codes_def txn_def
      sql_round_def)

text \<open>
  Claim C8 says that the returned percentages sum to at most 100. Six failures with six
  distinct codes give 16.67 six times: 100.02.
\<close>

theorem top_failure_codes_percentages_exceed_100:
  "map value_text (numbers (get_top_failure_codes example_days_ago
        (Some (example_engine six_codes)) None None 10))
     = [[Fmt '','' (Some (IntV 1)), Lit '' ('', Fmt [] (Some (FloatV (1667 / 100))), Lit ''%)''],
        [Fmt '','' (Some (IntV 1)), Lit '' ('', Fmt [] (Some (FloatV (1667 / 100))), Lit ''%)''],
        [Fmt '','' (Some (IntV 1)), Lit '' ('', Fmt [] (Some (FloatV (1667 / 100))), Lit ''%)''],
        [Fmt '','' (Some (IntV 1)), Lit '' ('', Fmt [] (Some (FloatV (1667 / 100))), Lit ''%)''],
        [Fmt '','' (Some (IntV 1)), Lit '' ('', Fmt [] (Some (FloatV (1667 / 100))), Lit ''%)''],
        [Fmt '','' (Some (IntV 1)), Lit '' ('', Fmt [] (Some (FloatV (1667 / 100))), Lit ''%)'']]
   \<and> (100 :: rat) < 1667 / 100 + 1667 / 100 + 1667 / 100 + 1667 / 100 + 1667 / 100 + 1667 / 100"
proof -
  have rs: "failed_rows (example_engine six_codes) ''1=1'' = six_codes"
    by (simp add: failed_rows_def rows_where_example_all)
      (simp add: six_codes_def is_failed_def txn_def)
  have "numbers (get_top_failure_codes example_days_ago
        (Some (example_engine six_codes)) None None 10) = map code_number (top_codes six_codes 10)"
    using top_codes_ok [of example_days_ago six_codes]
    by (simp add: get_top_failure_codes_unfold Let_def resolved_predicate_none rs
        failed_result_def split: option.splits)
  then show ?thesis
    by (simp add: top_codes_six code_number_def)
qed


lemma top_codes_mixed:
  "top_codes (filter is_failed mixed_codes) 10 =
     [(''TIMEOUT'', 2, 6667 / 100), (''Unknown'', 1, 3333 / 100)]"
  by (simp add: top_codes_def code_groups_def code_count_def mixed_codes_def txn_def
      sql_round_def is_failed_def)

theorem top_failure_codes_breakdown_witness:
  "map label (numbers (get_top_failure_codes example_days_ago
        (Some (example_engine mixed_codes)) None None 10)) = [''TIMEOUT'', ''Unknown'']
   \<and> map raw_value (numbers (get_top_failure_codes example_days_ago
        (Some (example_engine mixed_codes)) None None 10)) = [Some (IntV 2), Some (IntV 1)]"
proof -
  have rs: "failed_rows (example_engine mixed_codes) ''1=1'' = filter is_failed mixed_codes"
    by (simp add: failed_rows_def rows_where_example_all)
  have "numbers (get_top_failure_codes example_days_ago
        (Some (example_engine mixed_codes)) None None 10)
      = map code_number (top_codes (filter is_failed mixed_codes) 10)"
    using top_failure_codes_breakdown [OF top_codes_ok [of example_days_ago mixed_codes]]
    by (simp add: Let_def resolved_predicate_none rs)
  then show ?thesis
    by (simp add: top_codes_mixed code_number_def)
qed

end
